theory Spec2Isabelle
  imports Main "HOL-Library.Word" "HOL-Library.Code_Target_Numeral"
begin

unbundle bit_operations_syntax

section \<open>STARCOS SPK 2.3 card driver (card-starcos.c)\<close>

text \<open>
  A shallow embedding of \<^verbatim>\<open>src/libopensc/card-starcos.c\<close>. Bytes are 8-bit words,
  C structs are records, the \<^verbatim>\<open>int\<close> return convention (negative error code, otherwise
  a non-negative value) is the sum type \<open>sc_error + nat\<close>. Debug output
  (\<^verbatim>\<open>debug(ctx, ...)\<close>) has no effect on any result and is left out; the
  \<^verbatim>\<open>error(ctx, ...)\<close> lines of the status-word translator are returned with its result.
\<close>

subsection \<open>Return codes\<close>

type_synonym u8 = "8 word"

text \<open>
  The \<^verbatim>\<open>SC_ERROR_*\<close> constants come from \<^verbatim>\<open>errors.h\<close>, which is not part of the
  driver file; they are distinct negative integers and modelled as an enumeration.
  \<open>SC_ERROR_OTHER n\<close> stands for any further code a collaborator (transport, base
  protocol translator) may return.
\<close>

datatype sc_error =
    SC_ERROR_INVALID_ARGUMENTS
  | SC_ERROR_INCORRECT_PARAMETERS
  | SC_ERROR_NOT_ALLOWED
  | SC_ERROR_FILE_ALREADY_EXISTS
  | SC_ERROR_CARD_CMD_FAILED
  | SC_ERROR_FILE_NOT_FOUND
  | SC_ERROR_PIN_CODE_INCORRECT
  | SC_ERROR_OUT_OF_MEMORY
  | SC_ERROR_UNKNOWN_DATA_RECEIVED
  | SC_ERROR_INTERNAL
  | SC_ERROR_TRANSMIT_FAILED
  | SC_ERROR_OTHER int

type_synonym sc_ret = "sc_error + nat"

abbreviation SC_SUCCESS :: sc_ret where
  "SC_SUCCESS \<equiv> Inr 0"

abbreviation SC_NO_ERROR :: sc_ret where
  "SC_NO_ERROR \<equiv> Inr 0"

subsection \<open>Status-word translator: \<^verbatim>\<open>starcos_check_sw\<close>\<close>

text \<open>The lines written by \<^verbatim>\<open>error(card->ctx, ...)\<close>.\<close>

datatype sc_log =
    Verification_failed_remaining_tries int
  | Errorstr string

text \<open>The table \<^verbatim>\<open>starcos_errors[]\<close>: status word, error number, error string.\<close>

definition starcos_errors :: "(int \<times> sc_error \<times> string) list" where
  "starcos_errors =
    [ (0x6600, SC_ERROR_INCORRECT_PARAMETERS, ''Error setting the security env''),
      (0x66F0, SC_ERROR_INCORRECT_PARAMETERS, ''No space left for padding''),
      (0x69F0, SC_ERROR_NOT_ALLOWED, ''Command not allowed''),
      (0x6A89, SC_ERROR_FILE_ALREADY_EXISTS, ''Files exists''),
      (0x6A8A, SC_ERROR_FILE_ALREADY_EXISTS, ''Application exists''),
      (0x6F01, SC_ERROR_CARD_CMD_FAILED, ''public key not complete''),
      (0x6F02, SC_ERROR_CARD_CMD_FAILED, ''data overflow''),
      (0x6F03, SC_ERROR_CARD_CMD_FAILED, ''invalid command sequence''),
      (0x6F05, SC_ERROR_CARD_CMD_FAILED, ''security enviroment invalid''),
      (0x6F07, SC_ERROR_FILE_NOT_FOUND, ''key part not found''),
      (0x6F08, SC_ERROR_CARD_CMD_FAILED, ''signature failed''),
      (0x6F0A, SC_ERROR_INCORRECT_PARAMETERS, ''key format does not match key length''),
      (0x6F0B, SC_ERROR_INCORRECT_PARAMETERS,
         ''length of key component inconsistent with algorithm''),
      (0x6F81, SC_ERROR_CARD_CMD_FAILED, ''system error'') ]"

text \<open>
  The \<^verbatim>\<open>for\<close> loop over the table: the first entry whose \<^verbatim>\<open>SWs\<close> equals the word wins.
\<close>

fun find_starcos_error :: "(int \<times> sc_error \<times> string) list \<Rightarrow> int \<Rightarrow> (sc_error \<times> string) option" where
  "find_starcos_error [] sw = None"
| "find_starcos_error ((sws, errorno, errorstr) # rest) sw =
     (if sws = sw then Some (errorno, errorstr) else find_starcos_error rest sw)"

text \<open>
  The base protocol's translator \<^verbatim>\<open>iso_ops->check_sw\<close> lives in another file and is a
  parameter. \<^verbatim>\<open>sw1\<close> and \<^verbatim>\<open>sw2\<close> are C \<^verbatim>\<open>int\<close>s holding one byte each; no operation
  on them can overflow, so they are \<open>int\<close>.
\<close>

type_synonym check_sw_fn = "int \<Rightarrow> int \<Rightarrow> sc_ret \<times> sc_log list"

definition starcos_check_sw :: "check_sw_fn \<Rightarrow> int \<Rightarrow> int \<Rightarrow> sc_ret \<times> sc_log list" where
  "starcos_check_sw iso_check_sw sw1 sw2 =
    (if sw1 = 0x90 then (SC_NO_ERROR, [])
     else if sw1 = 0x63 \<and> (sw2 AND NOT 0x0f) = 0xc0
       then (Inl SC_ERROR_PIN_CODE_INCORRECT,
             [Verification_failed_remaining_tries (sw2 AND 0x0f)])
     else (case find_starcos_error starcos_errors (push_bit 8 sw1 OR sw2) of
             Some (errorno, errorstr) \<Rightarrow> (Inl errorno, [Errorstr errorstr])
           | None \<Rightarrow> iso_check_sw sw1 sw2))"

text \<open>
  \<^verbatim>\<open>sc_check_sw(card, sw1, sw2)\<close> dispatches to \<^verbatim>\<open>card->ops->check_sw\<close>, which
  \<^verbatim>\<open>sc_get_driver\<close> sets to \<^verbatim>\<open>starcos_check_sw\<close>; callers use the return code only.
\<close>

definition sc_check_sw :: "check_sw_fn \<Rightarrow> u8 \<Rightarrow> u8 \<Rightarrow> sc_ret" where
  "sc_check_sw iso_check_sw sw1 sw2 = fst (starcos_check_sw iso_check_sw (uint sw1) (uint sw2))"

subsection \<open>Paths, files, commands and the card\<close>

datatype sc_path_type =
    SC_PATH_TYPE_FILE_ID
  | SC_PATH_TYPE_DF_NAME
  | SC_PATH_TYPE_PATH
  | SC_PATH_TYPE_OTHER int

text \<open>
  \<^verbatim>\<open>struct sc_path\<close>: \<open>path_value\<close> is the whole byte array \<^verbatim>\<open>value[SC_MAX_PATH_SIZE]\<close>,
  of which the first \<open>path_len\<close> bytes are meaningful.
\<close>

record sc_path =
  path_value :: "u8 list"
  path_len :: nat
  path_index :: int
  path_type :: sc_path_type

datatype sc_file_type =
    SC_FILE_TYPE_WORKING_EF
  | SC_FILE_TYPE_DF
  | SC_FILE_TYPE_OTHER int

datatype sc_ef_structure =
    SC_FILE_EF_UNKNOWN
  | SC_FILE_EF_TRANSPARENT
  | SC_FILE_EF_LINEAR_FIXED
  | SC_FILE_EF_CYCLIC
  | SC_FILE_EF_OTHER int

text \<open>The fields of \<^verbatim>\<open>struct sc_file\<close> the driver touches.\<close>

record sc_file =
  file_path :: sc_path
  file_name :: "u8 list"
  file_namelen :: nat
  file_type :: sc_file_type
  file_shareable :: int
  file_ef_structure :: sc_ef_structure
  file_size :: nat
  file_id :: int
  file_record_length :: nat
  file_record_count :: nat
  file_magic :: nat

text \<open>
  Modelled from the spec: \<^verbatim>\<open>SC_FILE_MAGIC\<close> is a constant of the framework's header,
  which is not part of the driver file. It marks a descriptor as initialised; nothing
  below depends on its value.
\<close>

definition SC_FILE_MAGIC :: nat where
  "SC_FILE_MAGIC = 0x14426950"

datatype sc_apdu_case =
    SC_APDU_CASE_NONE
  | SC_APDU_CASE_1
  | SC_APDU_CASE_2_SHORT
  | SC_APDU_CASE_3_SHORT
  | SC_APDU_CASE_4_SHORT

text \<open>
  \<^verbatim>\<open>struct sc_apdu\<close>. \<open>apdu_resplen\<close> is the size of the response buffer before the
  exchange and the number of bytes received after it; \<open>apdu_resp\<close> holds the bytes
  received.
\<close>

record sc_apdu =
  apdu_cse :: sc_apdu_case
  apdu_cla :: u8
  apdu_ins :: u8
  apdu_p1 :: u8
  apdu_p2 :: u8
  apdu_lc :: nat
  apdu_le :: nat
  apdu_data :: "u8 list"
  apdu_datalen :: nat
  apdu_resp :: "u8 list"
  apdu_resplen :: nat
  apdu_sensitive :: nat
  apdu_sw1 :: u8
  apdu_sw2 :: u8

text \<open>
  The security operation held in \<^verbatim>\<open>starcos_mse_state.sec_ops\<close>. The
  \<^verbatim>\<open>SC_SEC_OPERATION_*\<close> constants are nonzero; 0 (no operation pending) is
  \<open>SEC_OPS_NONE\<close>.
\<close>

datatype sec_operation =
    SEC_OPS_NONE
  | SC_SEC_OPERATION_DECIPHER
  | SC_SEC_OPERATION_SIGN
  | SC_SEC_OPERATION_AUTHENTICATE
  | SC_SEC_OPERATION_OTHER int

record starcos_mse_state =
  mse_sec_ops :: sec_operation
  mse_buf :: "u8 list"
  mse_buf_len :: nat
  mse_p1 :: u8
  mse_p2 :: u8

datatype rsa_alg_flag =
    SC_ALGORITHM_RSA_PAD_PKCS1
  | SC_ALGORITHM_RSA_PAD_ISO9796
  | SC_ALGORITHM_RSA_HASH_NONE
  | SC_ALGORITHM_RSA_HASH_SHA1
  | SC_ALGORITHM_RSA_HASH_MD5
  | SC_ALGORITHM_RSA_HASH_RIPEMD160

text \<open>
  What one exchange with the card yields: a transport error, or the response bytes and
  the two status bytes.
\<close>

type_synonym card_response = "sc_error + (u8 list \<times> u8 \<times> u8)"

text \<open>
  \<^verbatim>\<open>struct sc_card\<close> together with the card behind it: \<open>card_responses\<close> is what the
  card will answer to the commands still to come, in order, and \<open>card_sent\<close> the
  commands transmitted so far.
\<close>

record sc_card =
  card_atr :: "u8 list"
  card_name :: string
  card_cla :: u8
  card_max_le :: nat
  card_algorithms :: "(nat \<times> rsa_alg_flag list \<times> nat) list"
  card_cache_valid :: bool
  card_cache_current_path :: sc_path
  card_drv_data :: starcos_mse_state
  card_responses :: "card_response list"
  card_sent :: "sc_apdu list"

text \<open>
  The collaborators the driver calls that live in other files: the base protocol's
  status-word translator, the TLV search \<^verbatim>\<open>sc_asn1_find_tag\<close> (the value bytes of the
  first object with the tag, if any), and the allocator \<^verbatim>\<open>sc_file_new\<close> (\<open>None\<close> when
  it returns \<^verbatim>\<open>NULL\<close>). With them comes what the response buffer of
  \<^verbatim>\<open>starcos_select_fid\<close> holds before the exchange: the buffer is a local array of
  \<^verbatim>\<open>SC_MAX_APDU_BUFFER_SIZE\<close> bytes that is never initialised, so its bytes are whatever
  the stack held.
\<close>

type_synonym find_tag_fn = "u8 list \<Rightarrow> nat \<Rightarrow> u8 list option"

record framework =
  iso_check_sw :: check_sw_fn
  asn1_find_tag :: find_tag_fn
  file_new :: "sc_file option"
  resp_buffer :: "u8 list"

subsection \<open>Card recognition: \<^verbatim>\<open>starcos_match_card\<close> and \<^verbatim>\<open>starcos_init\<close>\<close>

definition starcos_atrs :: "string list" where
  "starcos_atrs =
    [ ''3B:B7:94:00:c0:24:31:fe:65:53:50:4b:32:33:90:00:b4'',
      ''3B:B7:94:00:81:31:fe:65:53:50:4b:32:33:90:00:d1'' ]"

text \<open>
  Modelled from the spec: \<^verbatim>\<open>SC_MAX_ATR_SIZE\<close>, the size of the buffer an ATR is decoded
  into, is a constant of the framework's header, which is not part of the driver file.
  Both fingerprints are shorter.
\<close>

definition SC_MAX_ATR_SIZE :: nat where
  "SC_MAX_ATR_SIZE = 33"

definition hex_nibble :: "char \<Rightarrow> nat option" where
  "hex_nibble c =
    (let n = (of_char c :: nat) in
     if 48 \<le> n \<and> n \<le> 57 then Some (n - 48)
     else if 97 \<le> n \<and> n \<le> 102 then Some (n - 87)
     else if 65 \<le> n \<and> n \<le> 70 then Some (n - 55)
     else None)"

text \<open>One byte from two digits; \<open>None\<close> when one of them is no hexadecimal digit.\<close>

definition hex_byte :: "char \<Rightarrow> char \<Rightarrow> u8 option" where
  "hex_byte c1 c2 =
    (case (hex_nibble c1, hex_nibble c2) of
       (Some h, Some l) \<Rightarrow> Some (of_nat (16 * h + l))
     | _ \<Rightarrow> None)"

fun hex_bytes :: "string \<Rightarrow> u8 list option" where
  "hex_bytes [] = Some []"
| "hex_bytes [c] = None"
| "hex_bytes [c1, c2] = map_option (\<lambda>b. [b]) (hex_byte c1 c2)"
| "hex_bytes (c1 # c2 # c3 # rest) =
     (case hex_byte c1 c2 of
        None \<Rightarrow> None
      | Some b \<Rightarrow>
          map_option ((#) b) (hex_bytes (if c3 = CHR '':'' then rest else c3 # rest)))"

text \<open>
  Modelled from the spec: \<^verbatim>\<open>sc_hex_to_bin\<close> is a helper of the framework that is not in
  the driver file. It turns the text of an ATR fingerprint, two hexadecimal digits per
  byte with an optional colon after each byte, into bytes, and fails on any other text
  or when the bytes do not fit the buffer of \<open>outlen\<close> bytes.
\<close>

definition sc_hex_to_bin :: "string \<Rightarrow> nat \<Rightarrow> u8 list option" where
  "sc_hex_to_bin inp outlen =
    (case hex_bytes inp of
       None \<Rightarrow> None
     | Some bs \<Rightarrow> if length bs > outlen then None else Some bs)"

text \<open>
  The loop of \<^verbatim>\<open>starcos_match_card\<close> from index \<open>i\<close> on, over the entries of
  \<^verbatim>\<open>starcos_atrs\<close> not yet visited; it returns the final values of \<^verbatim>\<open>i\<close> and
  \<^verbatim>\<open>match\<close>. Each \<^verbatim>\<open>continue\<close> moves to the next entry, \<^verbatim>\<open>break\<close> leaves with
  \<^verbatim>\<open>match = i + 1\<close>, and the terminating \<^verbatim>\<open>NULL\<close> leaves with \<^verbatim>\<open>match = -1\<close>.
\<close>

fun match_atr_loop :: "u8 list \<Rightarrow> string list \<Rightarrow> int \<Rightarrow> int \<times> int" where
  "match_atr_loop atr [] i = (i, - 1)"
| "match_atr_loop atr (atrp # atrs) i =
     (case sc_hex_to_bin atrp SC_MAX_ATR_SIZE of
        None \<Rightarrow> match_atr_loop atr atrs (i + 1)
      | Some defatr \<Rightarrow>
          if length defatr \<noteq> length atr then match_atr_loop atr atrs (i + 1)
          else if atr \<noteq> defatr then match_atr_loop atr atrs (i + 1)
          else (i, i + 1))"

definition starcos_match_card :: "sc_card \<Rightarrow> int" where
  "starcos_match_card crd =
    (case match_atr_loop (card_atr crd) starcos_atrs 0 of
       (i, match) \<Rightarrow> if match = - 1 then 0 else i)"

text \<open>
  \<^verbatim>\<open>starcos_init\<close>. \<open>state\<close> is the block \<^verbatim>\<open>malloc\<close> returns (\<open>None\<close> for \<^verbatim>\<open>NULL\<close>); only
  its \<^verbatim>\<open>sec_ops\<close> field is initialised.
\<close>

definition starcos_rsa_flags :: "rsa_alg_flag list" where
  "starcos_rsa_flags =
    [SC_ALGORITHM_RSA_PAD_PKCS1, SC_ALGORITHM_RSA_PAD_ISO9796, SC_ALGORITHM_RSA_HASH_NONE,
     SC_ALGORITHM_RSA_HASH_SHA1, SC_ALGORITHM_RSA_HASH_MD5, SC_ALGORITHM_RSA_HASH_RIPEMD160]"

definition starcos_init :: "starcos_mse_state option \<Rightarrow> sc_card \<Rightarrow> sc_ret \<times> sc_card" where
  "starcos_init state crd =
    (case state of
       None \<Rightarrow> (Inl SC_ERROR_OUT_OF_MEMORY, crd)
     | Some st \<Rightarrow>
        (let crd = crd\<lparr>card_name := ''StarCOS'',
                          card_drv_data := st\<lparr>mse_sec_ops := SEC_OPS_NONE\<rparr>,
                          card_cla := 0x00\<rparr>;
             type = starcos_match_card crd
         in if type = 1 \<or> type = 2
            then (SC_SUCCESS,
                  crd\<lparr>card_algorithms := card_algorithms crd @
                           [(512, starcos_rsa_flags, 0x10001),
                            (768, starcos_rsa_flags, 0x10001),
                            (1024, starcos_rsa_flags, 0x10001)],
                        card_max_le := 0x80\<rparr>)
            else (Inl SC_ERROR_INTERNAL, crd)))"

subsection \<open>File descriptor decoder: \<^verbatim>\<open>process_fci\<close>\<close>

text \<open>
  \<open>buf\<close> is the \<^verbatim>\<open>buflen\<close> bytes the caller passes. A found tag is the list of its value
  bytes (\<^verbatim>\<open>taglen\<close> is its length); every byte read below is inside it by the length
  test before the read.
\<close>

definition process_fci :: "find_tag_fn \<Rightarrow> sc_file \<Rightarrow> u8 list \<Rightarrow> sc_file" where
  "process_fci sc_asn1_find_tag file0 buf =
    (let file = file0\<lparr>file_type := SC_FILE_TYPE_WORKING_EF,
                       file_ef_structure := SC_FILE_EF_UNKNOWN,
                       file_shareable := 0,
                       file_record_length := 0,
                       file_size := 0\<rparr>;
         file = (case sc_asn1_find_tag buf 0x80 of
                   None \<Rightarrow> file
                 | Some tag \<Rightarrow>
                     if length tag \<ge> 2
                     then file\<lparr>file_size := unat (tag ! 0) * 256 + unat (tag ! 1)\<rparr>
                     else file);
         file = (case sc_asn1_find_tag buf 0x82 of
                   None \<Rightarrow> file
                 | Some tag \<Rightarrow>
                     if length tag = 1 \<and> tag ! 0 = 0x01
                     then file\<lparr>file_type := SC_FILE_TYPE_WORKING_EF,
                               file_ef_structure := SC_FILE_EF_TRANSPARENT\<rparr>
                     else if length tag = 1 \<and> tag ! 0 = 0x11
                     then file\<lparr>file_type := SC_FILE_TYPE_WORKING_EF,
                               file_ef_structure := SC_FILE_EF_TRANSPARENT\<rparr>
                     else if length tag = 3 \<and> tag ! 1 = 0x21
                     then (let file = file\<lparr>file_record_length := unat (tag ! 2),
                                             file_type := SC_FILE_TYPE_WORKING_EF\<rparr>
                           in if tag ! 0 = 0x02
                              then file\<lparr>file_ef_structure := SC_FILE_EF_LINEAR_FIXED\<rparr>
                              else if tag ! 0 = 0x07
                              then file\<lparr>file_ef_structure := SC_FILE_EF_CYCLIC\<rparr>
                              else if tag ! 0 = 0x17
                              then file\<lparr>file_ef_structure := SC_FILE_EF_UNKNOWN\<rparr>
                              else file\<lparr>file_ef_structure := SC_FILE_EF_UNKNOWN,
                                        file_record_length := 0\<rparr>)
                     else file)
     in file\<lparr>file_magic := SC_FILE_MAGIC\<rparr>)"

text \<open>
  Modelled from the spec: \<^verbatim>\<open>sc_asn1_find_tag\<close> is a helper of the framework that is not
  in the driver file. This instance reads the metadata as a sequence of objects made of
  one tag byte, one length byte and that many value bytes, and yields the value of the
  first object with the tag asked for; it finds nothing when an object is cut short.
  It serves to run the decoder on concrete bytes; the theorems about the decoder hold
  for any search function.
\<close>

fun sc_asn1_find_tag :: "u8 list \<Rightarrow> nat \<Rightarrow> u8 list option" where
  "sc_asn1_find_tag (t # l # rest) tag_in =
     (if unat l > length rest then None
      else if unat t = tag_in then Some (take (unat l) rest)
      else sc_asn1_find_tag (drop (unat l) rest) tag_in)"
| "sc_asn1_find_tag _ tag_in = None"

subsection \<open>Exchanging commands with the card\<close>

text \<open>
  Modelled from the spec: \<^verbatim>\<open>SC_MAX_APDU_BUFFER_SIZE\<close>, the fixed size of the buffers that
  hold a command's data or a response, is a constant of the framework's header, which is
  not part of the driver file.
\<close>

definition SC_MAX_APDU_BUFFER_SIZE :: nat where
  "SC_MAX_APDU_BUFFER_SIZE = 258"

text \<open>
  Modelled from the spec: \<^verbatim>\<open>sc_format_apdu\<close> is a helper of the framework that is not in
  the driver file. It clears the command and sets its case, class byte (the card's),
  instruction and the two parameter bytes.
\<close>

definition sc_format_apdu :: "sc_card \<Rightarrow> sc_apdu_case \<Rightarrow> u8 \<Rightarrow> u8 \<Rightarrow> u8 \<Rightarrow> sc_apdu" where
  "sc_format_apdu crd cse ins p1 p2 =
    \<lparr>apdu_cse = cse, apdu_cla = card_cla crd, apdu_ins = ins, apdu_p1 = p1, apdu_p2 = p2,
     apdu_lc = 0, apdu_le = 0, apdu_data = [], apdu_datalen = 0, apdu_resp = [],
     apdu_resplen = 0, apdu_sensitive = 0, apdu_sw1 = 0, apdu_sw2 = 0\<rparr>"

text \<open>
  Modelled from the spec: the transport capability \<open>send(command) -> (responseBytes,
  statusWord)\<close> behind \<^verbatim>\<open>sc_transmit_apdu\<close>, which is not in the driver file. The
  command is recorded in \<open>card_sent\<close> and answered by the next entry of
  \<open>card_responses\<close>: a transport error is returned as it is, a response is stored in the
  command (cut to the size of its response buffer) with its two status bytes. When the
  card has nothing more to answer, the exchange fails with a transport error.
\<close>

definition sc_transmit_apdu :: "sc_card \<Rightarrow> sc_apdu \<Rightarrow> sc_ret \<times> sc_apdu \<times> sc_card" where
  "sc_transmit_apdu crd apdu =
    (case card_responses crd of
       [] \<Rightarrow> (Inl SC_ERROR_TRANSMIT_FAILED, apdu, crd\<lparr>card_sent := card_sent crd @ [apdu]\<rparr>)
     | x # xs \<Rightarrow>
        (case x of
           Inl e \<Rightarrow>
             (Inl e, apdu, crd\<lparr>card_sent := card_sent crd @ [apdu], card_responses := xs\<rparr>)
         | Inr (d, sw1, sw2) \<Rightarrow>
             (SC_SUCCESS,
              apdu\<lparr>apdu_resp := take (apdu_resplen apdu) d,
                   apdu_resplen := min (length d) (apdu_resplen apdu),
                   apdu_sw1 := sw1, apdu_sw2 := sw2\<rparr>,
              crd\<lparr>card_sent := card_sent crd @ [apdu], card_responses := xs\<rparr>)))"

subsection \<open>Security environment: \<^verbatim>\<open>starcos_set_security_env\<close>\<close>

datatype sc_algorithm =
    SC_ALGORITHM_RSA
  | SC_ALGORITHM_OTHER int

text \<open>
  \<^verbatim>\<open>struct sc_security_env\<close>. The four booleans are the bits of \<^verbatim>\<open>flags\<close> the driver
  tests, \<open>env_rsa_pad_pkcs1\<close> is the bit \<^verbatim>\<open>SC_ALGORITHM_RSA_PAD_PKCS1\<close> of
  \<^verbatim>\<open>algorithm_flags\<close>.
\<close>

record sc_security_env =
  env_operation :: sec_operation
  env_alg_ref_present :: bool
  env_alg_present :: bool
  env_key_ref_present :: bool
  env_key_ref_asymmetric :: bool
  env_algorithm :: sc_algorithm
  env_rsa_pad_pkcs1 :: bool
  env_algorithm_ref :: nat
  env_key_ref :: "u8 list"
  env_key_ref_len :: nat

text \<open>The bytes written through \<^verbatim>\<open>*p++\<close>, in order.\<close>

definition mse_reference_block :: "sc_security_env \<Rightarrow> u8 list" where
  "mse_reference_block env =
    (if env_alg_ref_present env then [0x80, 0x01, of_nat (env_algorithm_ref env)]
     else if env_alg_present env \<and> env_algorithm env = SC_ALGORITHM_RSA \<and> env_rsa_pad_pkcs1 env
       then (if env_operation env = SC_SEC_OPERATION_DECIPHER then [0x80, 0x01, 0x02]
             else if env_operation env = SC_SEC_OPERATION_SIGN \<or>
                     env_operation env = SC_SEC_OPERATION_AUTHENTICATE
               then [0x80, 0x01, 0x12]
             else [])
     else [])
    @
    (if env_key_ref_present env
     then (if env_key_ref_asymmetric env then [0x83] else [0x84])
          @ [of_nat (env_key_ref_len env)]
          @ take (env_key_ref_len env) (env_key_ref env)
     else [])"

definition starcos_set_security_env :: "sc_card \<Rightarrow> sc_security_env \<Rightarrow> int \<Rightarrow> sc_ret \<times> sc_card" where
  "starcos_set_security_env crd env se_num =
    (let mse = card_drv_data crd;
         written = mse_reference_block env;
         store = (\<lambda>ops p1 p2.
           (SC_SUCCESS,
            crd\<lparr>card_drv_data :=
                  mse\<lparr>mse_sec_ops := ops, mse_p1 := p1, mse_p2 := p2,
                      mse_buf := written @ drop (length written) (mse_buf mse),
                      mse_buf_len := length written\<rparr>\<rparr>))
     in case env_operation env of
          SC_SEC_OPERATION_DECIPHER \<Rightarrow> store SC_SEC_OPERATION_DECIPHER 0x81 0xB8
        | SC_SEC_OPERATION_SIGN \<Rightarrow> store SC_SEC_OPERATION_SIGN 0x41 0xB6
        | SC_SEC_OPERATION_AUTHENTICATE \<Rightarrow> store SC_SEC_OPERATION_AUTHENTICATE 0x41 0xa4
        | _ \<Rightarrow> (Inl SC_ERROR_INVALID_ARGUMENTS, crd))"

subsection \<open>Crypto operations: \<^verbatim>\<open>starcos_compute_signature\<close> and \<^verbatim>\<open>starcos_decipher\<close>\<close>

text \<open>\<^verbatim>\<open>memset(mse, 0, sizeof(starcos_mse_state))\<close>.\<close>

definition clear_mse_state :: "starcos_mse_state \<Rightarrow> starcos_mse_state" where
  "clear_mse_state mse =
    \<lparr>mse_sec_ops = SEC_OPS_NONE, mse_buf = replicate (length (mse_buf mse)) 0,
     mse_buf_len = 0, mse_p1 = 0, mse_p2 = 0\<rparr>"

text \<open>
  The first step of both operations: the MANAGE SECURITY ENVIRONMENT command built from
  the stored state.
\<close>

definition mse_apdu :: "sc_card \<Rightarrow> sc_apdu" where
  "mse_apdu crd =
    (let mse = card_drv_data crd
     in (sc_format_apdu crd SC_APDU_CASE_3_SHORT 0x22 (mse_p1 mse) (mse_p2 mse))
          \<lparr>apdu_data := take (mse_buf_len mse) (mse_buf mse),
           apdu_datalen := mse_buf_len mse,
           apdu_lc := mse_buf_len mse,
           apdu_le := 0\<rparr>)"

text \<open>
  The results are the return code, the bytes copied to \<^verbatim>\<open>out\<close> (none when \<^verbatim>\<open>out\<close> is
  not written) and the card afterwards. \<open>dat\<close> is \<^verbatim>\<open>data\<close>, of \<^verbatim>\<open>datalen\<close> bytes.
\<close>

definition starcos_compute_signature ::
    "framework \<Rightarrow> sc_card \<Rightarrow> u8 list \<Rightarrow> nat \<Rightarrow> sc_ret \<times> u8 list \<times> sc_card" where
  "starcos_compute_signature fw crd0 dat outlen =
    (if length dat > 20 then (Inl SC_ERROR_INVALID_ARGUMENTS, [], crd0)
     else let mse = card_drv_data crd0 in
     if mse_sec_ops mse = SEC_OPS_NONE then (Inl SC_ERROR_INVALID_ARGUMENTS, [], crd0)
     else
      (case sc_transmit_apdu crd0 (mse_apdu crd0) of (r, apdu, crd1) \<Rightarrow>
       (case r of Inl e \<Rightarrow> (Inl e, [], crd1) | Inr _ \<Rightarrow>
        if apdu_sw1 apdu \<noteq> 0x90 \<or> apdu_sw2 apdu \<noteq> 0x00
        then (sc_check_sw (iso_check_sw fw) (apdu_sw1 apdu) (apdu_sw2 apdu), [], crd1)
        else if mse_sec_ops mse = SC_SEC_OPERATION_SIGN then
         (let apdu = (sc_format_apdu crd1 SC_APDU_CASE_3_SHORT 0x2A 0x90 0x81)
                       \<lparr>apdu_resplen := SC_MAX_APDU_BUFFER_SIZE, apdu_le := 0,
                        apdu_data := dat, apdu_lc := length dat,
                        apdu_datalen := length dat\<rparr>
          in case sc_transmit_apdu crd1 apdu of (r, apdu, crd2) \<Rightarrow>
           (case r of Inl e \<Rightarrow> (Inl e, [], crd2) | Inr _ \<Rightarrow>
            if apdu_sw1 apdu \<noteq> 0x90 \<or> apdu_sw2 apdu \<noteq> 0x00
            then (sc_check_sw (iso_check_sw fw) (apdu_sw1 apdu) (apdu_sw2 apdu), [], crd2)
            else
             (let apdu = (sc_format_apdu crd2 SC_APDU_CASE_2_SHORT 0x2A 0x9E 0x9A)
                           \<lparr>apdu_resplen := SC_MAX_APDU_BUFFER_SIZE, apdu_le := 256,
                            apdu_lc := 0, apdu_datalen := 0, apdu_sensitive := 1\<rparr>
              in case sc_transmit_apdu crd2 apdu of (r, apdu, crd3) \<Rightarrow>
               (case r of Inl e \<Rightarrow> (Inl e, [], crd3) | Inr _ \<Rightarrow>
                if apdu_sw1 apdu = 0x90 \<and> apdu_sw2 apdu = 0x00
                then (let len = (if apdu_resplen apdu > outlen then outlen
                                 else apdu_resplen apdu)
                      in (Inr len, take len (apdu_resp apdu), crd3))
                else (sc_check_sw (iso_check_sw fw) (apdu_sw1 apdu) (apdu_sw2 apdu), [],
                      crd3\<lparr>card_drv_data := clear_mse_state (card_drv_data crd3)\<rparr>)))))
        else if mse_sec_ops mse = SC_SEC_OPERATION_AUTHENTICATE then
         (let apdu = (sc_format_apdu crd1 SC_APDU_CASE_4_SHORT 0x88 0x10 0x00)
                       \<lparr>apdu_data := dat, apdu_lc := length dat,
                        apdu_datalen := length dat,
                        apdu_resplen := SC_MAX_APDU_BUFFER_SIZE, apdu_le := 256\<rparr>
          in case sc_transmit_apdu crd1 apdu of (r, apdu, crd2) \<Rightarrow>
           (case r of Inl e \<Rightarrow> (Inl e, [], crd2) | Inr _ \<Rightarrow>
            (let len = (if apdu_resplen apdu > outlen then outlen else apdu_resplen apdu)
             in (Inr len, take len (apdu_resp apdu), crd2))))
        else (Inl SC_ERROR_INVALID_ARGUMENTS, [], crd1))))"

definition starcos_decipher ::
    "framework \<Rightarrow> sc_card \<Rightarrow> u8 list \<Rightarrow> nat \<Rightarrow> sc_ret \<times> u8 list \<times> sc_card" where
  "starcos_decipher fw crd0 crgram outlen =
    (if length crgram > 255 then (Inl SC_ERROR_INVALID_ARGUMENTS, [], crd0)
     else let mse = card_drv_data crd0 in
     if mse_sec_ops mse = SEC_OPS_NONE then (Inl SC_ERROR_INVALID_ARGUMENTS, [], crd0)
     else
      (case sc_transmit_apdu crd0 (mse_apdu crd0) of (r, apdu, crd1) \<Rightarrow>
       (case r of Inl e \<Rightarrow> (Inl e, [], crd1) | Inr _ \<Rightarrow>
        if apdu_sw1 apdu \<noteq> 0x90 \<or> apdu_sw2 apdu \<noteq> 0x00
        then (sc_check_sw (iso_check_sw fw) (apdu_sw1 apdu) (apdu_sw2 apdu), [], crd1)
        else
         (let apdu = (sc_format_apdu crd1 SC_APDU_CASE_4_SHORT 0x2A 0x80 0x86)
                       \<lparr>apdu_resplen := SC_MAX_APDU_BUFFER_SIZE, apdu_sensitive := 1,
                        apdu_data := 0 # crgram, apdu_lc := length crgram + 1,
                        apdu_datalen := length crgram + 1, apdu_le := 256\<rparr>
          in case sc_transmit_apdu crd1 apdu of (r, apdu, crd2) \<Rightarrow>
           (case r of Inl e \<Rightarrow> (Inl e, [], crd2) | Inr _ \<Rightarrow>
            if apdu_sw1 apdu = 0x90 \<and> apdu_sw2 apdu = 0x00
            then (let len = (if apdu_resplen apdu > outlen then outlen
                             else apdu_resplen apdu)
                  in (Inr len, take len (apdu_resp apdu), crd2))
            else (sc_check_sw (iso_check_sw fw) (apdu_sw1 apdu) (apdu_sw2 apdu), [],
                  crd2\<lparr>card_drv_data := clear_mse_state (card_drv_data crd2)\<rparr>))))))"

subsection \<open>Selection: \<^verbatim>\<open>copy_path\<close>, \<^verbatim>\<open>starcos_select_aid\<close>, \<^verbatim>\<open>starcos_select_fid\<close>\<close>

text \<open>\<^verbatim>\<open>copy_path\<close> on two non-null paths: the destination afterwards.\<close>

definition copy_path :: "sc_path \<Rightarrow> sc_path \<Rightarrow> sc_path" where
  "copy_path dest src =
    dest\<lparr>path_type := path_type src,
         path_len := path_len src,
         path_index := path_index src,
         path_value := take (path_len src) (path_value src)
                       @ drop (path_len src) (path_value dest)\<rparr>"

text \<open>
  In the selection functions \<open>want_file\<close> says that \<^verbatim>\<open>file_out\<close> is not \<^verbatim>\<open>NULL\<close>; the
  second result is the descriptor stored through it (\<open>None\<close> when nothing or \<^verbatim>\<open>NULL\<close>
  is stored).
\<close>

definition starcos_select_aid ::
    "framework \<Rightarrow> sc_card \<Rightarrow> u8 list \<Rightarrow> nat \<Rightarrow> bool \<Rightarrow> sc_ret \<times> sc_file option \<times> sc_card" where
  "starcos_select_aid fw crd0 aid len want_file =
    (let apdu = (sc_format_apdu crd0 SC_APDU_CASE_3_SHORT 0xA4 0x04 0x0C)
                  \<lparr>apdu_lc := len, apdu_data := take len aid, apdu_datalen := len,
                   apdu_resplen := 0, apdu_le := 0\<rparr>
     in case sc_transmit_apdu crd0 apdu of (r, apdu, crd1) \<Rightarrow>
      (case r of Inl e \<Rightarrow> (Inl e, None, crd1) | Inr _ \<Rightarrow>
       if \<not> (apdu_sw1 apdu = 0x90 \<and> apdu_sw2 apdu = 0x00) \<and> apdu_sw1 apdu \<noteq> 0x61
       then (sc_check_sw (iso_check_sw fw) (apdu_sw1 apdu) (apdu_sw2 apdu), None, crd1)
       else
        (let cur = card_cache_current_path crd1;
             crd2 = crd1\<lparr>card_cache_current_path :=
                      cur\<lparr>path_type := SC_PATH_TYPE_DF_NAME,
                          path_len := len,
                          path_value := take len aid @ drop len (path_value cur)\<rparr>\<rparr>
         in if want_file
            then (case file_new fw of
                    None \<Rightarrow> (Inl SC_ERROR_OUT_OF_MEMORY, None, crd2)
                  | Some file \<Rightarrow>
                      (SC_SUCCESS,
                       Some (file\<lparr>file_type := SC_FILE_TYPE_DF,
                                  file_ef_structure := SC_FILE_EF_UNKNOWN,
                                  file_path := (file_path file)\<lparr>path_len := 0\<rparr>,
                                  file_size := 0,
                                  file_name := take len aid @ drop len (file_name file),
                                  file_namelen := len,
                                  file_id := 0x0000,
                                  file_magic := SC_FILE_MAGIC\<rparr>),
                       crd2))
            else (SC_SUCCESS, None, crd2))))"

text \<open>
  The cache after a directory with the given identifier has been selected:
  \<^verbatim>\<open>3F00\<close> alone for the root, otherwise \<^verbatim>\<open>3F00\<close> followed by the identifier.
\<close>

definition cache_df :: "sc_path \<Rightarrow> u8 \<Rightarrow> u8 \<Rightarrow> sc_path" where
  "cache_df cur id_hi id_lo =
    (let cur = cur\<lparr>path_type := SC_PATH_TYPE_PATH,
                    path_value := (path_value cur)[0 := 0x3f, 1 := 0x00]\<rparr>
     in if id_hi = 0x3f \<and> id_lo = 0x00 then cur\<lparr>path_len := 2\<rparr>
        else cur\<lparr>path_len := 4,
                 path_value := (path_value cur)[2 := id_hi, 3 := id_lo]\<rparr>)"

text \<open>
  \<^verbatim>\<open>apdu.resplen - 2\<close> is computed in \<^verbatim>\<open>size_t\<close> and wraps around below 2.
\<close>

definition size_t_sub :: "nat \<Rightarrow> nat \<Rightarrow> nat" where
  "size_t_sub a b = (a + 2 ^ 64 - b) mod 2 ^ 64"

text \<open>
  The second half of \<^verbatim>\<open>starcos_select_fid\<close>, from the test of the status bytes on:
  \<open>apdu\<close> is the SELECT command after its last exchange, \<open>bIsDF\<close> the flag set by the
  first half. \<open>buf\<close> is the response buffer \<^verbatim>\<open>resp\<close> as the source reads it: the bytes
  received, followed by what the buffer held before past them. When fewer than two bytes
  were received, the subtraction wraps around, the length test holds and the bytes
  decoded are bytes the card never sent.
\<close>

definition starcos_select_fid_result ::
    "framework \<Rightarrow> sc_card \<Rightarrow> sc_apdu \<Rightarrow> bool \<Rightarrow> u8 \<Rightarrow> u8 \<Rightarrow> bool
       \<Rightarrow> sc_ret \<times> sc_file option \<times> sc_card" where
  "starcos_select_fid_result fw crd0 apdu bIsDF id_hi id_lo want_file =
    (if apdu_sw1 apdu \<noteq> 0x61 \<and> (apdu_sw1 apdu \<noteq> 0x90 \<or> apdu_sw2 apdu \<noteq> 0x00)
     then (sc_check_sw (iso_check_sw fw) (apdu_sw1 apdu) (apdu_sw2 apdu), None, crd0)
     else
      (let crd1 = (if bIsDF
                   then crd0\<lparr>card_cache_current_path :=
                               cache_df (card_cache_current_path crd0) id_hi id_lo\<rparr>
                   else crd0)
       in if want_file
          then (case file_new fw of
                  None \<Rightarrow> (Inl SC_ERROR_OUT_OF_MEMORY, None, crd1)
                | Some file0 \<Rightarrow>
                   (let file = file0\<lparr>file_id := push_bit 8 (uint id_hi) + uint id_lo,
                                      file_path := copy_path (file_path file0)
                                                     (card_cache_current_path crd1)\<rparr>;
                        buf = apdu_resp apdu
                              @ drop (length (apdu_resp apdu)) (resp_buffer fw)
                    in if bIsDF
                       then (SC_SUCCESS,
                             Some (file\<lparr>file_type := SC_FILE_TYPE_DF,
                                        file_ef_structure := SC_FILE_EF_UNKNOWN,
                                        file_size := 0,
                                        file_namelen := 0,
                                        file_magic := SC_FILE_MAGIC\<rparr>),
                             crd1)
                       else if buf ! 0 \<noteq> 0x6F
                       then (Inl SC_ERROR_UNKNOWN_DATA_RECEIVED, None, crd1)
                       else (SC_SUCCESS,
                             Some (if unat (buf ! 1) \<le> size_t_sub (apdu_resplen apdu) 2
                                   then process_fci (asn1_find_tag fw) file
                                          (take (unat (buf ! 1)) (drop 2 buf))
                                   else file),
                             crd1)))
          else (SC_SUCCESS, None, crd1)))"

definition starcos_select_fid ::
    "framework \<Rightarrow> sc_card \<Rightarrow> u8 \<Rightarrow> u8 \<Rightarrow> bool \<Rightarrow> sc_ret \<times> sc_file option \<times> sc_card" where
  "starcos_select_fid fw crd0 id_hi id_lo want_file =
    (let apdu = (sc_format_apdu crd0 SC_APDU_CASE_4_SHORT 0xA4 0x00 0x00)
                  \<lparr>apdu_resplen := SC_MAX_APDU_BUFFER_SIZE, apdu_le := 256, apdu_lc := 2,
                   apdu_data := [id_hi, id_lo], apdu_datalen := 2\<rparr>
     in case sc_transmit_apdu crd0 apdu of (r, apdu, crd1) \<Rightarrow>
      (case r of Inl e \<Rightarrow> (Inl e, None, crd1) | Inr _ \<Rightarrow>
       if apdu_p2 apdu = 0x00 \<and> apdu_sw1 apdu = 0x62 \<and> apdu_sw2 apdu = 0x84
       then
        (let apdu = apdu\<lparr>apdu_p2 := 0x0C, apdu_cse := SC_APDU_CASE_3_SHORT,
                          apdu_resplen := 0, apdu_le := 0\<rparr>
         in case sc_transmit_apdu crd1 apdu of (r, apdu, crd2) \<Rightarrow>
          (case r of Inl e \<Rightarrow> (Inl e, None, crd2) | Inr _ \<Rightarrow>
           starcos_select_fid_result fw crd2 apdu True id_hi id_lo want_file))
       else if apdu_sw1 apdu = 0x61 \<or> (apdu_sw1 apdu = 0x90 \<and> apdu_sw2 apdu = 0x00)
       then
        (let apdu2 = (sc_format_apdu crd1 SC_APDU_CASE_2_SHORT 0xB0 0 0)
                       \<lparr>apdu_resplen := 2, apdu_le := 1, apdu_lc := 0\<rparr>
         in case sc_transmit_apdu crd1 apdu2 of (r, apdu2, crd2) \<Rightarrow>
          (case r of Inl e \<Rightarrow> (Inl e, None, crd2) | Inr _ \<Rightarrow>
           starcos_select_fid_result fw crd2 apdu
             (apdu_sw1 apdu2 = 0x69 \<and> apdu_sw2 apdu2 = 0x86) id_hi id_lo want_file))
       else starcos_select_fid_result fw crd1 apdu False id_hi id_lo want_file))"

subsection \<open>Selection by path: \<^verbatim>\<open>starcos_select_file\<close>\<close>

text \<open>
  The loop comparing the cached path with the requested one, two bytes at a time, from
  index \<open>i\<close> on with the count \<open>bMatch\<close> so far.
\<close>

function bmatch_loop :: "u8 list \<Rightarrow> nat \<Rightarrow> u8 list \<Rightarrow> nat \<Rightarrow> int \<Rightarrow> int" where
  "bmatch_loop cur_value cur_len path i bMatch =
     (if i < cur_len
      then bmatch_loop cur_value cur_len path (i + 2)
             (if cur_value ! i = path ! i \<and> cur_value ! (i + 1) = path ! (i + 1)
              then bMatch + 2 else bMatch)
      else bMatch)"
  by pat_completeness auto
termination
  by (relation "measure (\<lambda>(cur_value, cur_len, path, i, bMatch). cur_len - i)") auto

declare bmatch_loop.simps [simp del]

text \<open>
  The path made to start at the root (\<^verbatim>\<open>n_pathbuf\<close>) and its length.
\<close>

definition unify_path :: "u8 list \<Rightarrow> nat \<Rightarrow> u8 list \<times> nat" where
  "unify_path pathbuf pathlen =
    (if pathbuf ! 0 \<noteq> 0x3f \<or> pathbuf ! 1 \<noteq> 0x00
     then ([0x3f, 0x00] @ take pathlen pathbuf, pathlen + 2)
     else (pathbuf, pathlen))"

definition starcos_bmatch :: "sc_card \<Rightarrow> u8 list \<Rightarrow> nat \<Rightarrow> int" where
  "starcos_bmatch crd path pathlen =
    (let cur = card_cache_current_path crd
     in if card_cache_valid crd \<and> path_type cur = SC_PATH_TYPE_PATH
           \<and> path_len cur \<ge> 2 \<and> path_len cur \<le> pathlen
        then bmatch_loop (path_value cur) (path_len cur) path 0 0
        else - 1)"

text \<open>
  The loop over the directories of the path when the cache is of no use, from index
  \<open>i\<close> on: each is selected without a descriptor, and the first failure ends the walk.
\<close>

function select_dirs :: "framework \<Rightarrow> sc_card \<Rightarrow> u8 list \<Rightarrow> nat \<Rightarrow> nat \<Rightarrow> sc_ret \<times> sc_card" where
  "select_dirs fw crd path pathlen i =
     (if i < pathlen - 2
      then (case starcos_select_fid fw crd (path ! i) (path ! (i + 1)) False of
              (r, f, crd') \<Rightarrow>
                (case r of
                   Inl e \<Rightarrow> (Inl e, crd')
                 | Inr _ \<Rightarrow> select_dirs fw crd' path pathlen (i + 2)))
      else (SC_SUCCESS, crd))"
  by pat_completeness auto
termination
  by (relation "measure (\<lambda>(fw, crd, path, pathlen, i). pathlen - 2 - i)") auto

declare select_dirs.simps [simp del]

text \<open>The descriptor made up from the cache when the requested directory is the current one.\<close>

definition current_df_file :: "sc_file \<Rightarrow> sc_card \<Rightarrow> u8 list \<Rightarrow> nat \<Rightarrow> sc_file" where
  "current_df_file file crd path pathlen =
    file\<lparr>file_id := push_bit 8 (uint (path ! (pathlen - 2))) + uint (path ! (pathlen - 1)),
         file_path := copy_path (file_path file) (card_cache_current_path crd),
         file_type := SC_FILE_TYPE_DF,
         file_ef_structure := SC_FILE_EF_UNKNOWN,
         file_size := 0,
         file_namelen := 0,
         file_magic := SC_FILE_MAGIC\<rparr>"

text \<open>Every successful \<^verbatim>\<open>starcos_select_fid\<close> has used up an answer of the card.\<close>

lemma sc_transmit_apdu_responses:
  "sc_transmit_apdu crd apdu = (r, apdu', crd') \<Longrightarrow>
     length (card_responses crd') \<le> length (card_responses crd)"
  by (auto simp: sc_transmit_apdu_def split: list.splits sum.splits)

lemma sc_transmit_apdu_ok_responses:
  "sc_transmit_apdu crd apdu = (Inr n, apdu', crd') \<Longrightarrow>
     length (card_responses crd') < length (card_responses crd)"
  by (auto simp: sc_transmit_apdu_def split: list.splits sum.splits)

lemma starcos_select_fid_result_responses:
  "starcos_select_fid_result fw crd apdu b hi lo w = (r, f, crd') \<Longrightarrow>
     card_responses crd' = card_responses crd"
  by (auto simp: starcos_select_fid_result_def Let_def split: if_splits option.splits)

lemma starcos_select_fid_ok_responses:
  assumes "starcos_select_fid fw crd hi lo w = (Inr n, f, crd')"
  shows "length (card_responses crd') < length (card_responses crd)"
proof -
  obtain r1 a1 c1 where t1:
    "sc_transmit_apdu crd
       ((sc_format_apdu crd SC_APDU_CASE_4_SHORT 0xA4 0x00 0x00)
          \<lparr>apdu_resplen := SC_MAX_APDU_BUFFER_SIZE, apdu_le := 256, apdu_lc := 2,
           apdu_data := [hi, lo], apdu_datalen := 2\<rparr>) = (r1, a1, c1)"
    by (metis prod_cases3)
  from assms t1 obtain m where r1: "r1 = Inr m"
    by (cases r1) (auto simp: starcos_select_fid_def Let_def)
  from t1 r1 have lt: "length (card_responses c1) < length (card_responses crd)"
    by (auto dest: sc_transmit_apdu_ok_responses)
  have "length (card_responses crd') \<le> length (card_responses c1)"
    using assms t1 r1
    by (auto simp: starcos_select_fid_def Let_def
             split: if_splits prod.splits sum.splits
             dest!: starcos_select_fid_result_responses sc_transmit_apdu_responses)
  with lt show ?thesis by simp
qed

text \<open>
  \<^verbatim>\<open>starcos_select_file\<close>. \<open>pathbuf\<close> holds the \<^verbatim>\<open>in_path->len\<close> bytes copied from the
  request. \<^verbatim>\<open>pathlen - bMatch\<close> is computed on integers: \<open>bMatch\<close> never exceeds
  \<open>pathlen\<close>, so the unsigned subtraction of the source does not wrap. The path handed
  to the recursive call is the local \<^verbatim>\<open>new_path\<close>, of which only the type, the length
  and the first \<^verbatim>\<open>len\<close> bytes are set.
\<close>

function starcos_select_file ::
    "framework \<Rightarrow> sc_card \<Rightarrow> sc_path \<Rightarrow> bool \<Rightarrow> sc_ret \<times> sc_file option \<times> sc_card" where
  "starcos_select_file fw crd in_path want_file =
    (let pathbuf = take (path_len in_path) (path_value in_path);
         pathlen = path_len in_path;
         cur = card_cache_current_path crd
     in
     if path_type in_path = SC_PATH_TYPE_FILE_ID then
       (if pathlen \<noteq> 2 then (Inl SC_ERROR_INVALID_ARGUMENTS, None, crd)
        else if card_cache_valid crd
                \<and> path_type cur = SC_PATH_TYPE_PATH
                \<and> path_len cur \<ge> 2
                \<and> path_value cur ! (path_len cur - 2) = pathbuf ! 0
                \<and> path_value cur ! (path_len cur - 1) = pathbuf ! 1
        then (SC_SUCCESS, None, crd)
        else starcos_select_fid fw crd (pathbuf ! 0) (pathbuf ! 1) want_file)
     else if path_type in_path = SC_PATH_TYPE_DF_NAME then
       (if card_cache_valid crd
           \<and> path_type cur = SC_PATH_TYPE_DF_NAME
           \<and> path_len cur = pathlen
           \<and> take pathlen (path_value cur) = take pathlen pathbuf
        then (SC_SUCCESS, None, crd)
        else starcos_select_aid fw crd pathbuf pathlen want_file)
     else if path_type in_path = SC_PATH_TYPE_PATH then
       (if pathlen mod 2 \<noteq> 0 \<or> pathlen > 6 \<or> pathlen \<le> 0
        then (Inl SC_ERROR_INVALID_ARGUMENTS, None, crd)
        else if pathlen = 6 \<and> (pathbuf ! 0 \<noteq> 0x3f \<or> pathbuf ! 1 \<noteq> 0x00)
        then (Inl SC_ERROR_INVALID_ARGUMENTS, None, crd)
        else
         (case unify_path pathbuf pathlen of (path, pathlen) \<Rightarrow>
          (let bMatch = starcos_bmatch crd path pathlen
           in if card_cache_valid crd \<and> bMatch \<ge> 0
              then
               (if int pathlen - bMatch = 2
                then starcos_select_fid fw crd (path ! nat bMatch) (path ! (nat bMatch + 1))
                       want_file
                else if int pathlen - bMatch > 2
                then
                 (case starcos_select_fid fw crd (path ! nat bMatch) (path ! (nat bMatch + 1))
                         False of
                    (r, f, crd') \<Rightarrow>
                      (case r of
                         Inl e \<Rightarrow> (Inl e, None, crd')
                       | Inr _ \<Rightarrow>
                           starcos_select_file fw crd'
                             \<lparr>path_value = take (pathlen - nat bMatch - 2)
                                             (drop (nat bMatch + 2) path),
                              path_len = pathlen - nat bMatch - 2,
                              path_index = 0,
                              path_type = SC_PATH_TYPE_PATH\<rparr>
                             want_file))
                else
                 (if want_file
                  then (case file_new fw of
                          None \<Rightarrow> (Inl SC_ERROR_OUT_OF_MEMORY, None, crd)
                        | Some file \<Rightarrow>
                            (SC_SUCCESS, Some (current_df_file file crd path pathlen), crd))
                  else (SC_SUCCESS, None, crd)))
              else
               (case select_dirs fw crd path pathlen 0 of
                  (r, crd') \<Rightarrow>
                    (case r of
                       Inl e \<Rightarrow> (Inl e, None, crd')
                     | Inr _ \<Rightarrow>
                         starcos_select_fid fw crd' (path ! (pathlen - 2))
                           (path ! (pathlen - 1)) want_file)))))
     else (Inl SC_ERROR_INVALID_ARGUMENTS, None, crd))"
  by pat_completeness auto
termination
proof (relation "measure (\<lambda>(fw, crd, in_path, want_file). length (card_responses crd))")
  show "wf (measure (\<lambda>(fw, crd, in_path, want_file). length (card_responses crd)))"
    by simp
next
  fix fw :: framework and crd crd' :: sc_card and in_path :: sc_path and want_file :: bool
  fix bMatch :: int and path :: "u8 list" and pathlen :: nat
  fix r :: sc_ret and f :: "sc_file option" and n :: nat
  fix x xa xb xc y ya
  assume "(r, y) = starcos_select_fid fw crd (path ! nat bMatch) (path ! (nat bMatch + 1)) False"
    and "(f, crd') = y" and "r = Inr n"
  then have "starcos_select_fid fw crd (path ! nat bMatch) (path ! (nat bMatch + 1)) False
               = (Inr n, f, crd')"
    by simp
  then show "((fw, crd',
               \<lparr>path_value = take (pathlen - nat bMatch - 2) (drop (nat bMatch + 2) path),
                path_len = pathlen - nat bMatch - 2, path_index = 0,
                path_type = SC_PATH_TYPE_PATH\<rparr>, want_file),
              (fw, crd, in_path, want_file))
             \<in> measure (\<lambda>(fw, crd, in_path, want_file). length (card_responses crd))"
    by (simp add: starcos_select_fid_ok_responses)
qed

declare starcos_select_file.simps [simp del]

subsection \<open>Concrete values for running the driver\<close>

text \<open>
  A zeroed path and a zeroed file as \<^verbatim>\<open>sc_file_new\<close> hands them out, a framework whose
  base translator reports every status word as an unknown error carrying the word and
  whose response buffer holds zeros before the exchange, and a card just connected:
  nothing cached, nothing configured, nothing sent, answering with the given responses.
\<close>

definition blank_path :: sc_path where
  "blank_path =
    \<lparr>path_value = replicate 16 0, path_len = 0, path_index = 0,
     path_type = SC_PATH_TYPE_PATH\<rparr>"

definition blank_file :: sc_file where
  "blank_file =
    \<lparr>file_path = blank_path, file_name = replicate 16 0, file_namelen = 0,
     file_type = SC_FILE_TYPE_OTHER 0, file_shareable = 0,
     file_ef_structure = SC_FILE_EF_OTHER 0, file_size = 0, file_id = 0,
     file_record_length = 0, file_record_count = 0, file_magic = SC_FILE_MAGIC\<rparr>"

definition plain_framework :: framework where
  "plain_framework =
    \<lparr>iso_check_sw = (\<lambda>sw1 sw2. (Inl (SC_ERROR_OTHER (256 * sw1 + sw2)), [])),
     asn1_find_tag = sc_asn1_find_tag,
     file_new = Some blank_file,
     resp_buffer = replicate 258 0\<rparr>"

definition blank_mse_state :: starcos_mse_state where
  "blank_mse_state =
    \<lparr>mse_sec_ops = SEC_OPS_NONE, mse_buf = replicate 258 0, mse_buf_len = 0,
     mse_p1 = 0, mse_p2 = 0\<rparr>"

definition fresh_card :: "card_response list \<Rightarrow> sc_card" where
  "fresh_card responses =
    \<lparr>card_atr = [], card_name = [], card_cla = 0, card_max_le = 0, card_algorithms = [],
     card_cache_valid = False, card_cache_current_path = blank_path,
     card_drv_data = blank_mse_state, card_responses = responses, card_sent = []\<rparr>"

text \<open>
  The identifiers carried by the SELECT commands by file identifier (instruction
  \<^verbatim>\<open>A4\<close>, both parameters 0) among the commands sent. \<^verbatim>\<open>starcos_select_fid\<close> sends one
  such command each time it is called; what it sends after it is a SELECT with the second
  parameter \<^verbatim>\<open>0C\<close> or a READ BINARY.
\<close>

definition fid_select_commands :: "sc_apdu list \<Rightarrow> u8 list list" where
  "fid_select_commands sent =
    map apdu_data
      (filter (\<lambda>a. apdu_ins a = 0xA4 \<and> apdu_p1 a = 0x00 \<and> apdu_p2 a = 0x00) sent)"

text \<open>
  A card that answers two selections as directories do (no data returned, then the
  confirmation) and the third with the metadata of a transparent file of 100 bytes,
  followed by a successful read of one byte; and the request for the path
  \<^verbatim>\<open>3F00/1234/5678\<close>.
\<close>

definition dir_then_ef_responses :: "card_response list" where
  "dir_then_ef_responses =
    [Inr ([], 0x62, 0x84), Inr ([], 0x90, 0x00),
     Inr ([], 0x62, 0x84), Inr ([], 0x90, 0x00),
     Inr ([0x6F, 0x07, 0x80, 0x02, 0x00, 0x64, 0x82, 0x01, 0x01], 0x90, 0x00),
     Inr ([0x00], 0x90, 0x00)]"

definition full_path_1234_5678 :: sc_path where
  "full_path_1234_5678 =
    \<lparr>path_value = [0x3F, 0x00, 0x12, 0x34, 0x56, 0x78] @ replicate 10 0, path_len = 6,
     path_index = 0, path_type = SC_PATH_TYPE_PATH\<rparr>"

text \<open>
  A security environment naming an RSA key with PKCS#1 padding for the given operation,
  and the card after \<^verbatim>\<open>starcos_set_security_env\<close> has stored it.
\<close>

definition key_env :: "sec_operation \<Rightarrow> sc_security_env" where
  "key_env operation =
    \<lparr>env_operation = operation, env_alg_ref_present = False, env_alg_present = True,
     env_key_ref_present = True, env_key_ref_asymmetric = True,
     env_algorithm = SC_ALGORITHM_RSA, env_rsa_pad_pkcs1 = True, env_algorithm_ref = 0,
     env_key_ref = [0x81], env_key_ref_len = 1\<rparr>"

definition configured_card :: "sec_operation \<Rightarrow> card_response list \<Rightarrow> sc_card" where
  "configured_card operation responses =
    snd (starcos_set_security_env (fresh_card responses) (key_env operation) 0)"

subsection \<open>Notions the properties are stated with\<close>

text \<open>
  The cache is valid and holds a path whose last two bytes are the given identifier; the
  cache is valid and holds exactly the given application identifier. These are the two
  tests \<^verbatim>\<open>starcos_select_file\<close> makes before it answers from the cache.
\<close>

definition cache_is_path_ending_in :: "sc_card \<Rightarrow> u8 \<Rightarrow> u8 \<Rightarrow> bool" where
  "cache_is_path_ending_in crd id_hi id_lo \<longleftrightarrow>
     card_cache_valid crd
   \<and> path_type (card_cache_current_path crd) = SC_PATH_TYPE_PATH
   \<and> 2 \<le> path_len (card_cache_current_path crd)
   \<and> path_value (card_cache_current_path crd) ! (path_len (card_cache_current_path crd) - 2)
       = id_hi
   \<and> path_value (card_cache_current_path crd) ! (path_len (card_cache_current_path crd) - 1)
       = id_lo"

definition cache_is_aid :: "sc_card \<Rightarrow> u8 list \<Rightarrow> bool" where
  "cache_is_aid crd aid \<longleftrightarrow>
     card_cache_valid crd
   \<and> path_type (card_cache_current_path crd) = SC_PATH_TYPE_DF_NAME
   \<and> path_len (card_cache_current_path crd) = length aid
   \<and> take (length aid) (path_value (card_cache_current_path crd)) = aid"



text \<open>
  A path of the given type holding the given bytes, and a card whose valid cache holds
  the given location.
\<close>

definition path_of :: "sc_path_type \<Rightarrow> u8 list \<Rightarrow> sc_path" where
  "path_of t bytes =
    \<lparr>path_value = bytes @ replicate (16 - length bytes) 0, path_len = length bytes,
     path_index = 0, path_type = t\<rparr>"

definition card_in :: "sc_path \<Rightarrow> card_response list \<Rightarrow> sc_card" where
  "card_in cur responses =
    (fresh_card responses)\<lparr>card_cache_valid := True, card_cache_current_path := cur\<rparr>"




section \<open>Properties\<close>

subsection \<open>The status-word translator\<close>

lemma and_not_mask_int: "(a::int) AND NOT (mask n) = push_bit n (drop_bit n a)"
  by (rule bit_eqI) (auto simp: bit_simps)

lemma and_not_15: "(sw2::int) AND NOT 15 = sw2 - sw2 mod 16"
proof -
  have "sw2 AND NOT (mask 4) = sw2 - take_bit 4 sw2"
    using bits_ident [of 4 sw2] by (simp add: and_not_mask_int)
  then show ?thesis
    by (simp add: take_bit_eq_mod mask_eq_exp_minus_1)
qed

lemma and_15: "(sw2::int) AND 15 = sw2 mod 16"
  using take_bit_eq_mask [of 4 sw2] by (simp add: take_bit_eq_mod mask_eq_exp_minus_1)

lemma sw2_63Cx: "(sw2::int) AND - 16 = 192 \<longleftrightarrow> 192 \<le> sw2 \<and> sw2 \<le> 207"
proof -
  have "sw2 AND - 16 = sw2 - sw2 mod 16"
    using and_not_15 [of sw2] by simp
  then show ?thesis by presburger
qed

lemma low_nibble_Cx: "0 \<le> x \<Longrightarrow> x < 16 \<Longrightarrow> (192 + x :: int) AND 15 = x"
  unfolding and_15 by presburger

lemma find_starcos_error_None:
  "find_starcos_error tbl sw = None \<longleftrightarrow> sw \<notin> fst ` set tbl"
  by (induction tbl sw rule: find_starcos_error.induct) auto

text \<open>
  C9. The translator maps every status word whose first byte is \<^verbatim>\<open>0x90\<close> to success,
  every word \<^verbatim>\<open>0x63Cx\<close> to \<^verbatim>\<open>SC_ERROR_PIN_CODE_INCORRECT\<close> while reporting \<open>x\<close>, the
  low nibble of the second byte, as the number of remaining tries, the word \<^verbatim>\<open>0x6A89\<close>
  to \<^verbatim>\<open>SC_ERROR_FILE_ALREADY_EXISTS\<close>, and hands every word that matches neither of
  the two rules nor an entry of the table to the base protocol's translator, whose
  answer it returns. The remaining tries are part of the message the translator writes;
  the return code is the same for every \<open>x\<close>.
\<close>

theorem starcos_check_sw_translates:
  "starcos_check_sw chk 0x90 b = (SC_NO_ERROR, [])
   \<and> (0 \<le> x \<and> x < 16 \<longrightarrow>
        starcos_check_sw chk 0x63 (0xC0 + x)
          = (Inl SC_ERROR_PIN_CODE_INCORRECT, [Verification_failed_remaining_tries x]))
   \<and> starcos_check_sw chk 0x6A 0x89
        = (Inl SC_ERROR_FILE_ALREADY_EXISTS, [Errorstr ''Files exists''])
   \<and> (sw1 \<noteq> 0x90 \<and> \<not> (sw1 = 0x63 \<and> 0xC0 \<le> sw2 \<and> sw2 \<le> 0xCF)
        \<and> (push_bit 8 sw1 OR sw2) \<notin> fst ` set starcos_errors \<longrightarrow>
        starcos_check_sw chk sw1 sw2 = chk sw1 sw2)"
proof (intro conjI impI)
  show "starcos_check_sw chk 0x90 b = (SC_NO_ERROR, [])"
    by (simp add: starcos_check_sw_def)
next
  assume "0 \<le> x \<and> x < 16"
  then show "starcos_check_sw chk 0x63 (0xC0 + x)
          = (Inl SC_ERROR_PIN_CODE_INCORRECT, [Verification_failed_remaining_tries x])"
    by (simp add: starcos_check_sw_def sw2_63Cx low_nibble_Cx)
next
  show "starcos_check_sw chk 0x6A 0x89
        = (Inl SC_ERROR_FILE_ALREADY_EXISTS, [Errorstr ''Files exists''])"
    by (simp add: starcos_check_sw_def starcos_errors_def)
next
  assume h: "sw1 \<noteq> 0x90 \<and> \<not> (sw1 = 0x63 \<and> 0xC0 \<le> sw2 \<and> sw2 \<le> 0xCF)
        \<and> (push_bit 8 sw1 OR sw2) \<notin> fst ` set starcos_errors"
  then have "find_starcos_error starcos_errors (push_bit 8 sw1 OR sw2) = None"
    by (simp add: find_starcos_error_None)
  with h show "starcos_check_sw chk sw1 sw2 = chk sw1 sw2"
    by (auto simp: starcos_check_sw_def sw2_63Cx)
qed

theorem starcos_check_sw_translates_witness:
  "starcos_check_sw (\<lambda>a b. (Inl SC_ERROR_FILE_NOT_FOUND, [])) 0x90 0x00 = (SC_NO_ERROR, [])
   \<and> starcos_check_sw (\<lambda>a b. (Inl SC_ERROR_FILE_NOT_FOUND, [])) 0x63 0xC5
        = (Inl SC_ERROR_PIN_CODE_INCORRECT, [Verification_failed_remaining_tries 5])
   \<and> starcos_check_sw (\<lambda>a b. (Inl SC_ERROR_FILE_NOT_FOUND, [])) 0x6A 0x82
        = (Inl SC_ERROR_FILE_NOT_FOUND, [])"
  using starcos_check_sw_translates
    [where chk = "\<lambda>a b. (Inl SC_ERROR_FILE_NOT_FOUND, [])" and b = 0 and x = 5
       and ?sw1.0 = "0x6A" and ?sw2.0 = "0x82"]
  by (simp add: starcos_errors_def)

subsection \<open>Card recognition\<close>

lemma sc_hex_to_bin_atr_0:
  "sc_hex_to_bin ''3B:B7:94:00:c0:24:31:fe:65:53:50:4b:32:33:90:00:b4'' SC_MAX_ATR_SIZE
     = Some [0x3B, 0xB7, 0x94, 0x00, 0xc0, 0x24, 0x31, 0xfe, 0x65, 0x53, 0x50, 0x4b, 0x32,
             0x33, 0x90, 0x00, 0xb4]"
  by (simp add: sc_hex_to_bin_def hex_byte_def hex_nibble_def SC_MAX_ATR_SIZE_def)

lemma sc_hex_to_bin_atr_1:
  "sc_hex_to_bin ''3B:B7:94:00:81:31:fe:65:53:50:4b:32:33:90:00:d1'' SC_MAX_ATR_SIZE
     = Some [0x3B, 0xB7, 0x94, 0x00, 0x81, 0x31, 0xfe, 0x65, 0x53, 0x50, 0x4b, 0x32, 0x33,
             0x90, 0x00, 0xd1]"
  by (simp add: sc_hex_to_bin_def hex_byte_def hex_nibble_def SC_MAX_ATR_SIZE_def)

text \<open>
  What \<^verbatim>\<open>starcos_match_card\<close> returns is the index of the matching entry, not the
  index plus one held in \<^verbatim>\<open>match\<close>: 1 for the second fingerprint and 0 for every other
  ATR, the first fingerprint included.
\<close>

lemma starcos_match_card_value:
  "starcos_match_card crd =
     (if card_atr crd = [0x3B, 0xB7, 0x94, 0x00, 0x81, 0x31, 0xfe, 0x65, 0x53, 0x50, 0x4b,
                         0x32, 0x33, 0x90, 0x00, 0xd1]
      then 1 else 0)"
  by (auto simp: starcos_match_card_def starcos_atrs_def sc_hex_to_bin_atr_0
        sc_hex_to_bin_atr_1)

text \<open>
  C2. The claim is that a card whose ATR equals either fingerprint is matched (a nonzero
  result). For the first fingerprint the driver returns 0, the value that means no
  match, and \<^verbatim>\<open>starcos_init\<close>, which accepts the results 1 and 2 only, then fails with
  \<^verbatim>\<open>SC_ERROR_INTERNAL\<close>.
\<close>

theorem starcos_match_card_first_atr:
  "card_atr crd = [0x3B, 0xB7, 0x94, 0x00, 0xc0, 0x24, 0x31, 0xfe, 0x65, 0x53, 0x50, 0x4b,
                   0x32, 0x33, 0x90, 0x00, 0xb4] \<Longrightarrow>
     starcos_match_card crd = 0 \<and> fst (starcos_init (Some st) crd) = Inl SC_ERROR_INTERNAL"
  by (simp add: starcos_match_card_value starcos_init_def Let_def)

theorem starcos_match_card_first_atr_witness:
  "starcos_match_card
     ((fresh_card [])\<lparr>card_atr := [0x3B, 0xB7, 0x94, 0x00, 0xc0, 0x24, 0x31, 0xfe, 0x65,
                                    0x53, 0x50, 0x4b, 0x32, 0x33, 0x90, 0x00, 0xb4]\<rparr>) = 0
   \<and> fst (starcos_init (Some blank_mse_state)
       ((fresh_card [])\<lparr>card_atr := [0x3B, 0xB7, 0x94, 0x00, 0xc0, 0x24, 0x31, 0xfe, 0x65,
                                    0x53, 0x50, 0x4b, 0x32, 0x33, 0x90, 0x00, 0xb4]\<rparr>))
       = Inl SC_ERROR_INTERNAL"
  using starcos_match_card_first_atr
    [of "(fresh_card [])\<lparr>card_atr := [0x3B, 0xB7, 0x94, 0x00, 0xc0, 0x24, 0x31, 0xfe, 0x65,
                                    0x53, 0x50, 0x4b, 0x32, 0x33, 0x90, 0x00, 0xb4]\<rparr>"
        blank_mse_state]
  by simp

subsection \<open>The file descriptor decoder\<close>

text \<open>
  C6, as the code has it. When the metadata holds tag \<^verbatim>\<open>0x82\<close> with value \<open>v\<close>: a
  one-byte value \<^verbatim>\<open>0x01\<close> or \<^verbatim>\<open>0x11\<close> yields a transparent working EF; a three-byte
  value whose second byte is \<^verbatim>\<open>0x21\<close> yields a working EF whose structure follows the
  first byte (\<^verbatim>\<open>0x02\<close> linear fixed, \<^verbatim>\<open>0x07\<close> cyclic, anything else unknown) and whose
  record length is the third byte for the first bytes \<^verbatim>\<open>0x02\<close>, \<^verbatim>\<open>0x07\<close> and \<^verbatim>\<open>0x17\<close>
  and 0 for any other; a three-byte value whose second byte is not \<^verbatim>\<open>0x21\<close> leaves the
  defaults, structure unknown and record length 0.
\<close>

theorem process_fci_file_descriptor:
  assumes "find_tag buf 0x82 = Some v"
  shows "(v = [0x01] \<or> v = [0x11] \<longrightarrow>
            file_type (process_fci find_tag fd buf) = SC_FILE_TYPE_WORKING_EF
          \<and> file_ef_structure (process_fci find_tag fd buf) = SC_FILE_EF_TRANSPARENT)
       \<and> (v = [a, 0x21, c] \<longrightarrow>
            file_type (process_fci find_tag fd buf) = SC_FILE_TYPE_WORKING_EF
          \<and> file_ef_structure (process_fci find_tag fd buf)
              = (if a = 0x02 then SC_FILE_EF_LINEAR_FIXED
                 else if a = 0x07 then SC_FILE_EF_CYCLIC else SC_FILE_EF_UNKNOWN)
          \<and> file_record_length (process_fci find_tag fd buf)
              = (if a = 0x02 \<or> a = 0x07 \<or> a = 0x17 then unat c else 0))
       \<and> (v = [a, b, c] \<and> b \<noteq> 0x21 \<longrightarrow>
            file_type (process_fci find_tag fd buf) = SC_FILE_TYPE_WORKING_EF
          \<and> file_ef_structure (process_fci find_tag fd buf) = SC_FILE_EF_UNKNOWN
          \<and> file_record_length (process_fci find_tag fd buf) = 0)"
  using assms by (auto simp: process_fci_def Let_def split: option.splits)

text \<open>The bytes \<^verbatim>\<open>82 03 02 21 0A\<close> decode to a linear fixed EF with records of 10 bytes.\<close>

theorem process_fci_file_descriptor_witness:
  "file_ef_structure (process_fci sc_asn1_find_tag blank_file [0x82, 0x03, 0x02, 0x21, 0x0A])
     = SC_FILE_EF_LINEAR_FIXED
   \<and> file_record_length (process_fci sc_asn1_find_tag blank_file [0x82, 0x03, 0x02, 0x21, 0x0A])
     = 10"
  using process_fci_file_descriptor
    [where find_tag = sc_asn1_find_tag and buf = "[0x82, 0x03, 0x02, 0x21, 0x0A]"
       and v = "[0x02, 0x21, 0x0A]" and a = "0x02" and b = "0x21" and c = "0x0A"
       and fd = blank_file]
  by simp

text \<open>
  Against C6 as stated: with first byte \<^verbatim>\<open>0x17\<close> the record length is the third byte,
  10 here, not 0; and the three-byte value \<^verbatim>\<open>02 00 0A\<close>, whose second byte is not
  \<^verbatim>\<open>0x21\<close>, yields neither a linear fixed EF nor the record length 10.
\<close>

theorem process_fci_counterexample:
  "file_ef_structure (process_fci sc_asn1_find_tag blank_file [0x82, 0x03, 0x17, 0x21, 0x0A])
     = SC_FILE_EF_UNKNOWN
   \<and> file_record_length (process_fci sc_asn1_find_tag blank_file [0x82, 0x03, 0x17, 0x21, 0x0A])
     = 10
   \<and> file_ef_structure (process_fci sc_asn1_find_tag blank_file [0x82, 0x03, 0x02, 0x00, 0x0A])
     = SC_FILE_EF_UNKNOWN
   \<and> file_record_length (process_fci sc_asn1_find_tag blank_file [0x82, 0x03, 0x02, 0x00, 0x0A])
     = 0"
  by (simp add: process_fci_def Let_def)

subsection \<open>The crypto operations\<close>

lemma sc_transmit_apdu_answer:
  "card_responses crd = Inr (d, sa, sb) # rest \<Longrightarrow>
     sc_transmit_apdu crd apdu =
       (SC_SUCCESS,
        apdu\<lparr>apdu_resp := take (apdu_resplen apdu) d,
             apdu_resplen := min (length d) (apdu_resplen apdu),
             apdu_sw1 := sa, apdu_sw2 := sb\<rparr>,
        crd\<lparr>card_sent := card_sent crd @ [apdu], card_responses := rest\<rparr>)"
  by (simp add: sc_transmit_apdu_def)

text \<open>
  With no operation pending both entry points fail with \<^verbatim>\<open>SC_ERROR_INVALID_ARGUMENTS\<close>
  and leave the card as it was: nothing is sent.
\<close>

lemma sequencer_unconfigured:
  "mse_sec_ops (card_drv_data crd) = SEC_OPS_NONE \<Longrightarrow>
     starcos_compute_signature fw crd dat outlen = (Inl SC_ERROR_INVALID_ARGUMENTS, [], crd)
   \<and> starcos_decipher fw crd dat outlen = (Inl SC_ERROR_INVALID_ARGUMENTS, [], crd)"
  by (simp add: starcos_compute_signature_def starcos_decipher_def)

text \<open>
  \<^verbatim>\<open>starcos_compute_signature\<close> with a pending operation that is neither signing nor
  authentication sends the MSE command and, when the card accepts it, fails with
  \<^verbatim>\<open>SC_ERROR_INVALID_ARGUMENTS\<close>.
\<close>

lemma compute_signature_other_operation:
  assumes "length dat \<le> 20"
    and "mse_sec_ops (card_drv_data crd) = SC_SEC_OPERATION_DECIPHER"
    and "card_responses crd = Inr (da, 0x90, 0x00) # rest"
  shows "starcos_compute_signature fw crd dat outlen
           = (Inl SC_ERROR_INVALID_ARGUMENTS, [],
              crd\<lparr>card_sent := card_sent crd @ [mse_apdu crd], card_responses := rest\<rparr>)"
  using assms
  by (simp add: starcos_compute_signature_def Let_def sc_transmit_apdu_answer)

text \<open>
  The one path on which the pending state is cleared: the last command of the operation
  is answered with a status other than \<^verbatim>\<open>9000\<close>.
\<close>

lemma sequencer_clears_after_last_failure:
  "(length dat \<le> 20 \<and> mse_sec_ops (card_drv_data crd) = SC_SEC_OPERATION_SIGN
      \<and> card_responses crd
            = Inr (da, 0x90, 0x00) # Inr (db, 0x90, 0x00) # Inr (sg, sa, sb) # rest
      \<and> \<not> (sa = 0x90 \<and> sb = 0x00) \<longrightarrow>
        fst (starcos_compute_signature fw crd dat outlen) = sc_check_sw (iso_check_sw fw) sa sb
      \<and> card_drv_data (snd (snd (starcos_compute_signature fw crd dat outlen)))
          = clear_mse_state (card_drv_data crd))
   \<and> (length dat \<le> 255 \<and> mse_sec_ops (card_drv_data crd) \<noteq> SEC_OPS_NONE
      \<and> card_responses crd = Inr (da, 0x90, 0x00) # Inr (sg, sa, sb) # rest
      \<and> \<not> (sa = 0x90 \<and> sb = 0x00) \<longrightarrow>
        fst (starcos_decipher fw crd dat outlen) = sc_check_sw (iso_check_sw fw) sa sb
      \<and> card_drv_data (snd (snd (starcos_decipher fw crd dat outlen)))
          = clear_mse_state (card_drv_data crd))"
  by (auto simp: starcos_compute_signature_def starcos_decipher_def Let_def
        sc_transmit_apdu_answer)

text \<open>
  C1. The claim is that every call of the two operations that passes the argument
  checks clears the pending security environment before it returns, so that a second
  call without a new configuration fails. The code clears it on one path only, a
  failure of the last command. After a successful signature (three accepted commands),
  after a successful decipher (two accepted commands) and after a rejected MSE command
  the stored state is what it was.
\<close>

theorem sequencer_leaves_state_pending:
  "(length dat \<le> 20 \<and> mse_sec_ops (card_drv_data crd) = SC_SEC_OPERATION_SIGN
      \<and> card_responses crd
            = Inr (da, 0x90, 0x00) # Inr (db, 0x90, 0x00) # Inr (sg, 0x90, 0x00) # rest \<longrightarrow>
        fst (starcos_compute_signature fw crd dat outlen)
          = Inr (min (min (length sg) SC_MAX_APDU_BUFFER_SIZE) outlen)
      \<and> card_drv_data (snd (snd (starcos_compute_signature fw crd dat outlen)))
          = card_drv_data crd
      \<and> card_responses (snd (snd (starcos_compute_signature fw crd dat outlen))) = rest)
   \<and> (length dat \<le> 255 \<and> mse_sec_ops (card_drv_data crd) \<noteq> SEC_OPS_NONE
      \<and> card_responses crd = Inr (da, 0x90, 0x00) # Inr (sg, 0x90, 0x00) # rest \<longrightarrow>
        fst (starcos_decipher fw crd dat outlen)
          = Inr (min (min (length sg) SC_MAX_APDU_BUFFER_SIZE) outlen)
      \<and> card_drv_data (snd (snd (starcos_decipher fw crd dat outlen))) = card_drv_data crd
      \<and> card_responses (snd (snd (starcos_decipher fw crd dat outlen))) = rest)
   \<and> (length dat \<le> 20 \<and> mse_sec_ops (card_drv_data crd) \<noteq> SEC_OPS_NONE
      \<and> card_responses crd = Inr (da, sa, sb) # rest \<and> \<not> (sa = 0x90 \<and> sb = 0x00) \<longrightarrow>
        starcos_compute_signature fw crd dat outlen
          = (sc_check_sw (iso_check_sw fw) sa sb, [],
             crd\<lparr>card_sent := card_sent crd @ [mse_apdu crd], card_responses := rest\<rparr>)
      \<and> starcos_decipher fw crd dat outlen
          = (sc_check_sw (iso_check_sw fw) sa sb, [],
             crd\<lparr>card_sent := card_sent crd @ [mse_apdu crd], card_responses := rest\<rparr>))"
proof (intro conjI impI)
  assume h: "length dat \<le> 20 \<and> mse_sec_ops (card_drv_data crd) = SC_SEC_OPERATION_SIGN
      \<and> card_responses crd
            = Inr (da, 0x90, 0x00) # Inr (db, 0x90, 0x00) # Inr (sg, 0x90, 0x00) # rest"
  then show "fst (starcos_compute_signature fw crd dat outlen)
          = Inr (min (min (length sg) SC_MAX_APDU_BUFFER_SIZE) outlen)"
    by (auto simp: starcos_compute_signature_def Let_def sc_transmit_apdu_answer min_def)
  from h show "card_drv_data (snd (snd (starcos_compute_signature fw crd dat outlen)))
          = card_drv_data crd"
    by (auto simp: starcos_compute_signature_def Let_def sc_transmit_apdu_answer)
  from h show "card_responses (snd (snd (starcos_compute_signature fw crd dat outlen))) = rest"
    by (auto simp: starcos_compute_signature_def Let_def sc_transmit_apdu_answer)
next
  assume h: "length dat \<le> 255 \<and> mse_sec_ops (card_drv_data crd) \<noteq> SEC_OPS_NONE
      \<and> card_responses crd = Inr (da, 0x90, 0x00) # Inr (sg, 0x90, 0x00) # rest"
  then show "fst (starcos_decipher fw crd dat outlen)
          = Inr (min (min (length sg) SC_MAX_APDU_BUFFER_SIZE) outlen)"
    by (auto simp: starcos_decipher_def Let_def sc_transmit_apdu_answer min_def)
  from h show "card_drv_data (snd (snd (starcos_decipher fw crd dat outlen))) = card_drv_data crd"
    by (auto simp: starcos_decipher_def Let_def sc_transmit_apdu_answer)
  from h show "card_responses (snd (snd (starcos_decipher fw crd dat outlen))) = rest"
    by (auto simp: starcos_decipher_def Let_def sc_transmit_apdu_answer)
next
  assume h: "length dat \<le> 20 \<and> mse_sec_ops (card_drv_data crd) \<noteq> SEC_OPS_NONE
      \<and> card_responses crd = Inr (da, sa, sb) # rest \<and> \<not> (sa = 0x90 \<and> sb = 0x00)"
  then show "starcos_compute_signature fw crd dat outlen
          = (sc_check_sw (iso_check_sw fw) sa sb, [],
             crd\<lparr>card_sent := card_sent crd @ [mse_apdu crd], card_responses := rest\<rparr>)"
    by (auto simp: starcos_compute_signature_def Let_def sc_transmit_apdu_answer)
  from h show "starcos_decipher fw crd dat outlen
          = (sc_check_sw (iso_check_sw fw) sa sb, [],
             crd\<lparr>card_sent := card_sent crd @ [mse_apdu crd], card_responses := rest\<rparr>)"
    by (auto simp: starcos_decipher_def Let_def sc_transmit_apdu_answer)
qed

text \<open>
  A card configured for signing once and asked for two signatures in a row: the first
  call returns the signature and leaves the signing state in place, and the second call,
  with no configuration in between, sends the same three commands again and returns a
  signature where the claim expects \<^verbatim>\<open>SC_ERROR_INVALID_ARGUMENTS\<close>.
\<close>

theorem sequencer_leaves_state_pending_witness:
  "(case starcos_compute_signature plain_framework
           (configured_card SC_SEC_OPERATION_SIGN
              [Inr ([], 0x90, 0x00), Inr ([], 0x90, 0x00), Inr ([1, 2, 3], 0x90, 0x00),
               Inr ([], 0x90, 0x00), Inr ([], 0x90, 0x00), Inr ([4, 5, 6], 0x90, 0x00)])
           (replicate 20 0xAB) 128 of
      (r, out, crd) \<Rightarrow>
        r = Inr 3 \<and> out = [1, 2, 3]
        \<and> mse_sec_ops (card_drv_data crd) = SC_SEC_OPERATION_SIGN
        \<and> starcos_compute_signature plain_framework crd (replicate 20 0xAB) 128
            = (Inr 3, [4, 5, 6],
               crd\<lparr>card_sent := card_sent crd @ card_sent crd, card_responses := []\<rparr>))"
  using sequencer_leaves_state_pending
    [where dat = "replicate 20 0xAB" and da = "[]" and db = "[]" and sg = "[1, 2, 3]"
       and rest = "[Inr ([], 0x90, 0x00), Inr ([], 0x90, 0x00), Inr ([4, 5, 6], 0x90, 0x00)]"
       and outlen = 128 and fw = plain_framework
       and crd = "configured_card SC_SEC_OPERATION_SIGN
              [Inr ([], 0x90, 0x00), Inr ([], 0x90, 0x00), Inr ([1, 2, 3], 0x90, 0x00),
               Inr ([], 0x90, 0x00), Inr ([], 0x90, 0x00), Inr ([4, 5, 6], 0x90, 0x00)]"]
  by (simp add: configured_card_def starcos_set_security_env_def key_env_def fresh_card_def
        Let_def starcos_compute_signature_def sc_transmit_apdu_def mse_apdu_def
        sc_format_apdu_def SC_MAX_APDU_BUFFER_SIZE_def mse_reference_block_def
        blank_mse_state_def)

text \<open>
  C3. The claim is that each entry point requires the pending operation to be of its
  own kind, \<^verbatim>\<open>starcos_decipher\<close> a pending decipher operation. The code of
  \<^verbatim>\<open>starcos_decipher\<close> tests only that some operation is pending: with any pending
  operation and a card that accepts the MSE and the decipher command it returns the
  card's response as plaintext.
\<close>

theorem decipher_accepts_any_operation:
  assumes "length crgram \<le> 255"
    and "mse_sec_ops (card_drv_data crd) \<noteq> SEC_OPS_NONE"
    and "card_responses crd = Inr (da, 0x90, 0x00) # Inr (pl, 0x90, 0x00) # rest"
  shows "fst (starcos_decipher fw crd crgram outlen)
           = Inr (min (min (length pl) SC_MAX_APDU_BUFFER_SIZE) outlen)
       \<and> fst (snd (starcos_decipher fw crd crgram outlen))
           = take (min (min (length pl) SC_MAX_APDU_BUFFER_SIZE) outlen) pl
       \<and> length (card_sent (snd (snd (starcos_decipher fw crd crgram outlen))))
           = length (card_sent crd) + 2"
  using assms
  by (auto simp: starcos_decipher_def Let_def sc_transmit_apdu_answer min_def)

text \<open>
  A card configured for signing and asked to decipher: the MSE command carries the
  signing parameters \<^verbatim>\<open>41 B6\<close>, the decipher command follows, and the three bytes the
  card answers are returned.
\<close>

theorem decipher_accepts_any_operation_witness:
  "starcos_decipher plain_framework
     (configured_card SC_SEC_OPERATION_SIGN [Inr ([], 0x90, 0x00), Inr ([7, 8, 9], 0x90, 0x00)])
     (replicate 128 0xCD) 256
   = (Inr 3, [7, 8, 9],
      (configured_card SC_SEC_OPERATION_SIGN [])
        \<lparr>card_sent :=
           [(sc_format_apdu (fresh_card []) SC_APDU_CASE_3_SHORT 0x22 0x41 0xB6)
              \<lparr>apdu_data := [0x80, 0x01, 0x12, 0x83, 0x01, 0x81], apdu_datalen := 6,
               apdu_lc := 6\<rparr>,
            (sc_format_apdu (fresh_card []) SC_APDU_CASE_4_SHORT 0x2A 0x80 0x86)
              \<lparr>apdu_resplen := SC_MAX_APDU_BUFFER_SIZE, apdu_sensitive := 1,
               apdu_data := 0 # replicate 128 0xCD, apdu_lc := 129, apdu_datalen := 129,
               apdu_le := 256\<rparr>]\<rparr>)"
  using decipher_accepts_any_operation
    [where crgram = "replicate 128 0xCD" and da = "[]" and pl = "[7, 8, 9]" and rest = "[]"
       and outlen = 256 and fw = plain_framework
       and crd = "configured_card SC_SEC_OPERATION_SIGN
                    [Inr ([], 0x90, 0x00), Inr ([7, 8, 9], 0x90, 0x00)]"]
  by (simp add: configured_card_def starcos_set_security_env_def key_env_def fresh_card_def
        Let_def starcos_decipher_def sc_transmit_apdu_def mse_apdu_def
        sc_format_apdu_def SC_MAX_APDU_BUFFER_SIZE_def mse_reference_block_def
        blank_mse_state_def)

text \<open>
  C5. The claim is that the first status word other than success ends the operation with
  the translated error and no data, for authentication as well. The authentication
  branch of \<^verbatim>\<open>starcos_compute_signature\<close> does not look at the status of the INTERNAL
  AUTHENTICATE command: whatever the two status bytes, it returns the length of the
  response and copies the response out.
\<close>

theorem compute_signature_authenticate_ignores_status:
  assumes "length dat \<le> 20"
    and "mse_sec_ops (card_drv_data crd) = SC_SEC_OPERATION_AUTHENTICATE"
    and "card_responses crd = Inr (da, 0x90, 0x00) # Inr (db, sa, sb) # rest"
  shows "fst (starcos_compute_signature fw crd dat outlen)
           = Inr (min (min (length db) SC_MAX_APDU_BUFFER_SIZE) outlen)
       \<and> fst (snd (starcos_compute_signature fw crd dat outlen))
           = take (min (min (length db) SC_MAX_APDU_BUFFER_SIZE) outlen) db"
  using assms
  by (auto simp: starcos_compute_signature_def Let_def sc_transmit_apdu_answer min_def)

text \<open>
  The card answers INTERNAL AUTHENTICATE with \<^verbatim>\<open>6F08\<close> (signature failed) and no data:
  the operation returns 0, a success with an empty result, although the translator maps
  the status word to \<^verbatim>\<open>SC_ERROR_CARD_CMD_FAILED\<close>.
\<close>

theorem compute_signature_authenticate_ignores_status_witness:
  "fst (starcos_compute_signature plain_framework
          (configured_card SC_SEC_OPERATION_AUTHENTICATE
             [Inr ([], 0x90, 0x00), Inr ([], 0x6F, 0x08)])
          (replicate 20 0xAB) 128) = Inr 0
   \<and> sc_check_sw (iso_check_sw plain_framework) 0x6F 0x08 = Inl SC_ERROR_CARD_CMD_FAILED"
  using compute_signature_authenticate_ignores_status
    [where dat = "replicate 20 0xAB" and da = "[]" and db = "[]" and sa = "0x6F"
       and sb = "0x08" and rest = "[]" and outlen = 128 and fw = plain_framework
       and crd = "configured_card SC_SEC_OPERATION_AUTHENTICATE
             [Inr ([], 0x90, 0x00), Inr ([], 0x6F, 0x08)]"]
  by (simp add: configured_card_def starcos_set_security_env_def key_env_def fresh_card_def
        Let_def sc_check_sw_def starcos_check_sw_def starcos_errors_def)

subsection \<open>Selection by file identifier\<close>

text \<open>What an exchange changes of the card, and what it leaves of the command.\<close>

lemma sc_transmit_apdu_sent:
  "sc_transmit_apdu crd apdu = (r, a, crd') \<Longrightarrow> card_sent crd' = card_sent crd @ [apdu]"
  by (auto simp: sc_transmit_apdu_def split: list.splits sum.splits)

lemma sc_transmit_apdu_frame:
  "sc_transmit_apdu crd apdu = (r, a, crd') \<Longrightarrow>
     card_cache_current_path crd' = card_cache_current_path crd
   \<and> card_cache_valid crd' = card_cache_valid crd
   \<and> card_drv_data crd' = card_drv_data crd
   \<and> card_cla crd' = card_cla crd"
  by (auto simp: sc_transmit_apdu_def split: list.splits sum.splits)

lemma sc_transmit_apdu_command:
  "sc_transmit_apdu crd apdu = (r, a, crd') \<Longrightarrow>
     apdu_ins a = apdu_ins apdu \<and> apdu_p1 a = apdu_p1 apdu \<and> apdu_p2 a = apdu_p2 apdu
   \<and> apdu_data a = apdu_data apdu"
  by (auto simp: sc_transmit_apdu_def split: list.splits sum.splits)

lemma starcos_select_fid_result_frame:
  "starcos_select_fid_result fw crd apdu b hi lo w = (r, f, crd') \<Longrightarrow>
     card_sent crd' = card_sent crd \<and> card_cache_valid crd' = card_cache_valid crd
   \<and> card_responses crd' = card_responses crd"
  by (auto simp: starcos_select_fid_result_def Let_def split: if_splits option.splits)

lemma starcos_select_fid_result_cache:
  "starcos_select_fid_result fw crd apdu b hi lo w = (r, f, crd') \<Longrightarrow>
     card_cache_current_path crd' =
       (if b \<and> (apdu_sw1 apdu = 0x61 \<or> (apdu_sw1 apdu = 0x90 \<and> apdu_sw2 apdu = 0x00))
        then cache_df (card_cache_current_path crd) hi lo
        else card_cache_current_path crd)"
  by (auto simp: starcos_select_fid_result_def Let_def split: if_splits option.splits)

lemma size_t_sub_2:
  assumes "2 \<le> n" and "n < 2 ^ 64"
  shows "size_t_sub n 2 = n - 2"
proof -
  have "n + 2 ^ 64 - 2 = (n - 2) + (2 ^ 64 :: nat)"
    using assms by simp
  then have "size_t_sub n 2 = ((n - 2) + 2 ^ 64) mod 2 ^ 64"
    by (simp only: size_t_sub_def)
  also have "\<dots> = (n - 2) mod 2 ^ 64"
    by (simp only: mod_add_self2)
  also have "\<dots> = n - 2"
    using assms by (simp only: mod_less less_imp_diff_less)
  finally show ?thesis .
qed

lemma starcos_select_fid_sends:
  assumes "starcos_select_fid fw crd hi lo w = (r, f, crd')"
  shows "length (card_sent crd) < length (card_sent crd')"
proof -
  obtain ra aa ca where t: 
    "sc_transmit_apdu crd
       ((sc_format_apdu crd SC_APDU_CASE_4_SHORT 0xA4 0x00 0x00)
          \<lparr>apdu_resplen := SC_MAX_APDU_BUFFER_SIZE, apdu_le := 256, apdu_lc := 2,
           apdu_data := [hi, lo], apdu_datalen := 2\<rparr>) = (ra, aa, ca)"
    by (metis prod_cases3)
  from t have s: "length (card_sent ca) = Suc (length (card_sent crd))"
    by (simp add: sc_transmit_apdu_sent)
  have "length (card_sent ca) \<le> length (card_sent crd')"
    using assms t
    by (auto simp: starcos_select_fid_def Let_def
             split: if_splits prod.splits sum.splits
             dest!: starcos_select_fid_result_frame sc_transmit_apdu_sent)
  with s show ?thesis by simp
qed

lemma starcos_select_aid_sends:
  assumes "starcos_select_aid fw crd aid len w = (r, f, crd')"
  shows "length (card_sent crd) < length (card_sent crd')"
  using assms
  by (auto simp: starcos_select_aid_def Let_def
           split: if_splits prod.splits sum.splits option.splits
           dest!: sc_transmit_apdu_sent)

lemma starcos_select_fid_commands:
  assumes "starcos_select_fid fw crd hi lo w = (r, f, crd')"
  shows "fid_select_commands (card_sent crd') = fid_select_commands (card_sent crd) @ [[hi, lo]]"
proof -
  let ?apdu = "(sc_format_apdu crd SC_APDU_CASE_4_SHORT 0xA4 0x00 0x00)
          \<lparr>apdu_resplen := SC_MAX_APDU_BUFFER_SIZE, apdu_le := 256, apdu_lc := 2,
           apdu_data := [hi, lo], apdu_datalen := 2\<rparr>"
  obtain ra aa ca where t: "sc_transmit_apdu crd ?apdu = (ra, aa, ca)"
    by (metis prod_cases3)
  from t have s: "card_sent ca = card_sent crd @ [?apdu]"
    by (simp add: sc_transmit_apdu_sent)
  then have c: "fid_select_commands (card_sent ca) = fid_select_commands (card_sent crd) @ [[hi, lo]]"
    by (simp add: fid_select_commands_def sc_format_apdu_def)
  from t have k: "apdu_ins aa = 0xA4 \<and> apdu_p1 aa = 0 \<and> apdu_p2 aa = 0 \<and> apdu_data aa = [hi, lo]"
    by (auto dest!: sc_transmit_apdu_command simp: sc_format_apdu_def)
  have "fid_select_commands (card_sent crd') = fid_select_commands (card_sent ca)"
    using assms t k
    by (auto simp: starcos_select_fid_def Let_def fid_select_commands_def sc_format_apdu_def
             split: if_splits prod.splits sum.splits
             dest!: starcos_select_fid_result_frame sc_transmit_apdu_sent)
  with c show ?thesis by simp
qed

text \<open>The definitions that run a selection on concrete values.\<close>

lemmas run_select =
  starcos_select_fid_def starcos_select_fid_result_def sc_transmit_apdu_def
  sc_format_apdu_def fresh_card_def plain_framework_def Let_def cache_df_def copy_path_def
  blank_path_def blank_file_def SC_MAX_APDU_BUFFER_SIZE_def size_t_sub_def process_fci_def
  sc_check_sw_def starcos_check_sw_def

text \<open>
  C10. When the card's response to the SELECT is taken for an EF (data returned, and the
  READ BINARY probe does not answer \<^verbatim>\<open>6986\<close>), begins with the tag \<^verbatim>\<open>0x6F\<close> and its
  second byte exceeds the number of bytes that follow, \<^verbatim>\<open>starcos_select_fid\<close> returns
  success with the descriptor as allocated but for its identifier and path: the
  metadata is not decoded and no error is raised. The cache is left as it was.
\<close>

theorem select_fid_fci_length_too_long:
  assumes "card_responses crd = Inr (resp, sa, sb) # Inr (probe, ta, tb) # rest"
    and "sa = 0x61 \<or> (sa = 0x90 \<and> sb = 0x00)"
    and "\<not> (ta = 0x69 \<and> tb = 0x86)"
    and "2 \<le> length resp" and "length resp \<le> SC_MAX_APDU_BUFFER_SIZE"
    and "resp ! 0 = 0x6F" and "length resp - 2 < unat (resp ! 1)"
    and "file_new fw = Some fd"
  shows "fst (starcos_select_fid fw crd id_hi id_lo True) = SC_SUCCESS
       \<and> fst (snd (starcos_select_fid fw crd id_hi id_lo True))
           = Some (fd\<lparr>file_id := push_bit 8 (uint id_hi) + uint id_lo,
                      file_path := copy_path (file_path fd) (card_cache_current_path crd)\<rparr>)
       \<and> card_cache_current_path (snd (snd (starcos_select_fid fw crd id_hi id_lo True)))
           = card_cache_current_path crd"
proof -
  have n: "size_t_sub (length resp) 2 = length resp - 2"
    using assms(4,5) by (simp add: size_t_sub_2 SC_MAX_APDU_BUFFER_SIZE_def)
  show ?thesis
    using assms n
    by (auto simp: starcos_select_fid_def starcos_select_fid_result_def Let_def
          sc_transmit_apdu_answer sc_format_apdu_def min_def nth_append)
qed

theorem select_fid_fci_length_too_long_witness:
  "fst (starcos_select_fid plain_framework
          (fresh_card [Inr ([0x6F, 0x20, 0x80, 0x02], 0x90, 0x00), Inr ([0x00], 0x90, 0x00)])
          0x56 0x78 True) = SC_SUCCESS
   \<and> fst (snd (starcos_select_fid plain_framework
          (fresh_card [Inr ([0x6F, 0x20, 0x80, 0x02], 0x90, 0x00), Inr ([0x00], 0x90, 0x00)])
          0x56 0x78 True)) = Some (blank_file\<lparr>file_id := 0x5678\<rparr>)"
  using select_fid_fci_length_too_long
    [where crd = "fresh_card [Inr ([0x6F, 0x20, 0x80, 0x02], 0x90, 0x00),
                              Inr ([0x00], 0x90, 0x00)]"
       and resp = "[0x6F, 0x20, 0x80, 0x02]" and sa = "0x90" and sb = "0x00"
       and probe = "[0x00]" and ta = "0x90" and tb = "0x00" and rest = "[]"
       and fw = plain_framework and fd = blank_file and id_hi = "0x56" and id_lo = "0x78"]
  by (simp add: fresh_card_def plain_framework_def SC_MAX_APDU_BUFFER_SIZE_def copy_path_def
        blank_file_def blank_path_def)

subsection \<open>Selection by path without a usable cache\<close>

lemma select_file_invalid_cache_full_path:
  assumes "\<not> card_cache_valid crd"
    and "path_type p = SC_PATH_TYPE_PATH" and "path_len p = 6"
    and "take 6 (path_value p) = [0x3F, 0x00, 0x12, 0x34, 0x56, 0x78]"
  shows "starcos_select_file fw crd p want =
     (case starcos_select_fid fw crd 0x3F 0x00 False of
        (r, f, ca) \<Rightarrow>
          (case r of
             Inl e \<Rightarrow> (Inl e, None, ca)
           | Inr _ \<Rightarrow>
              (case starcos_select_fid fw ca 0x12 0x34 False of
                 (r, f, cb) \<Rightarrow>
                   (case r of
                      Inl e \<Rightarrow> (Inl e, None, cb)
                    | Inr _ \<Rightarrow> starcos_select_fid fw cb 0x56 0x78 want))))"
  using assms
  by (subst starcos_select_file.simps)
     (simp add: Let_def unify_path_def starcos_bmatch_def select_dirs.simps
           split: prod.splits sum.splits)

lemma starcos_select_fid_ef:
  assumes "card_responses crd = Inr (0x6F # l # fci, sa, sb) # Inr (probe, ta, tb) # rest"
    and "sa = 0x61 \<or> (sa = 0x90 \<and> sb = 0x00)"
    and "\<not> (ta = 0x69 \<and> tb = 0x86)"
    and "unat l \<le> length fci" and "length fci + 2 \<le> SC_MAX_APDU_BUFFER_SIZE"
    and "file_new fw = Some fd"
  shows "fst (starcos_select_fid fw crd id_hi id_lo True) = SC_SUCCESS
       \<and> fst (snd (starcos_select_fid fw crd id_hi id_lo True))
           = Some (process_fci (asn1_find_tag fw)
                     (fd\<lparr>file_id := push_bit 8 (uint id_hi) + uint id_lo,
                         file_path := copy_path (file_path fd) (card_cache_current_path crd)\<rparr>)
                     (take (unat l) fci))"
proof -
  have n: "size_t_sub (Suc (Suc (length fci))) 2 = length fci"
    using assms(5) size_t_sub_2 [of "Suc (Suc (length fci))"]
    by (simp add: SC_MAX_APDU_BUFFER_SIZE_def)
  show ?thesis
    using assms n
    by (auto simp: starcos_select_fid_def starcos_select_fid_result_def Let_def
          sc_transmit_apdu_answer sc_format_apdu_def min_def)
qed

lemma process_fci_transparent_100:
  assumes "find_tag buf 0x80 = Some [0, 100]" and "find_tag buf 0x82 = Some [0x01]"
  shows "file_type (process_fci find_tag fd buf) = SC_FILE_TYPE_WORKING_EF
       \<and> file_ef_structure (process_fci find_tag fd buf) = SC_FILE_EF_TRANSPARENT
       \<and> file_size (process_fci find_tag fd buf) = 100"
  using assms by (simp add: process_fci_def Let_def)

text \<open>
  C4, as the code has it. Selecting the path \<^verbatim>\<open>3F00/1234/5678\<close> with an invalid cache
  calls \<^verbatim>\<open>starcos_select_fid\<close> three times: for \<^verbatim>\<open>3F00\<close> and for \<^verbatim>\<open>1234\<close> without a
  descriptor, then for \<^verbatim>\<open>5678\<close> with one. When the first two succeed and the response
  to the third is an EF's, whose metadata carries tag \<^verbatim>\<open>0x80\<close> with value \<open>{0, 100}\<close>
  and tag \<^verbatim>\<open>0x82\<close> with value \<open>{0x01}\<close>, the result is success with the descriptor of
  a transparent working EF of size 100, and the SELECT commands by file identifier sent
  on the way are those three, in this order.
\<close>

theorem select_file_full_path_invalid_cache:
  assumes "\<not> card_cache_valid crd"
    and "path_type p = SC_PATH_TYPE_PATH" and "path_len p = 6"
    and "take 6 (path_value p) = [0x3F, 0x00, 0x12, 0x34, 0x56, 0x78]"
    and "starcos_select_fid fw crd 0x3F 0x00 False = (Inr m, fa, ca)"
    and "starcos_select_fid fw ca 0x12 0x34 False = (Inr n, fb, cb)"
    and "card_responses cb = Inr (0x6F # l # fci, sa, sb) # Inr (probe, ta, tb) # rest"
    and "sa = 0x61 \<or> (sa = 0x90 \<and> sb = 0x00)"
    and "\<not> (ta = 0x69 \<and> tb = 0x86)"
    and "unat l \<le> length fci" and "length fci + 2 \<le> SC_MAX_APDU_BUFFER_SIZE"
    and "asn1_find_tag fw (take (unat l) fci) 0x80 = Some [0, 100]"
    and "asn1_find_tag fw (take (unat l) fci) 0x82 = Some [0x01]"
    and "file_new fw = Some fd"
  shows "\<exists>f crd'.
           starcos_select_file fw crd p True = (SC_SUCCESS, Some f, crd')
         \<and> file_type f = SC_FILE_TYPE_WORKING_EF
         \<and> file_ef_structure f = SC_FILE_EF_TRANSPARENT
         \<and> file_size f = 100
         \<and> fid_select_commands (card_sent crd')
             = fid_select_commands (card_sent crd)
               @ [[0x3F, 0x00], [0x12, 0x34], [0x56, 0x78]]"
proof -
  obtain r f crd' where last: "starcos_select_fid fw cb 0x56 0x78 True = (r, f, crd')"
    by (metis prod_cases3)
  have whole: "starcos_select_file fw crd p True = (r, f, crd')"
    using select_file_invalid_cache_full_path [OF assms(1-4), of fw True] assms(5,6) last
    by simp
  have ef: "r = SC_SUCCESS
     \<and> f = Some (process_fci (asn1_find_tag fw)
                  (fd\<lparr>file_id := push_bit 8 (uint (0x56 :: u8)) + uint (0x78 :: u8),
                      file_path := copy_path (file_path fd) (card_cache_current_path cb)\<rparr>)
                  (take (unat l) fci))"
    using starcos_select_fid_ef [OF assms(7-11) assms(14), of "0x56" "0x78"] last
    by simp
  have sent: "fid_select_commands (card_sent crd')
             = fid_select_commands (card_sent crd)
               @ [[0x3F, 0x00], [0x12, 0x34], [0x56, 0x78]]"
    using starcos_select_fid_commands [OF assms(5)] starcos_select_fid_commands [OF assms(6)]
      starcos_select_fid_commands [OF last]
    by simp
  from whole ef sent
    process_fci_transparent_100
      [where find_tag = "asn1_find_tag fw" and buf = "take (unat l) fci", OF assms(12,13)]
  show ?thesis by simp
qed

theorem select_file_full_path_invalid_cache_witness:
  "\<exists>f crd'.
     starcos_select_file plain_framework (fresh_card dir_then_ef_responses)
       full_path_1234_5678 True = (SC_SUCCESS, Some f, crd')
   \<and> file_type f = SC_FILE_TYPE_WORKING_EF
   \<and> file_ef_structure f = SC_FILE_EF_TRANSPARENT
   \<and> file_size f = 100
   \<and> fid_select_commands (card_sent crd') = [[0x3F, 0x00], [0x12, 0x34], [0x56, 0x78]]"
proof -
  let ?ca = "snd (snd (starcos_select_fid plain_framework (fresh_card dir_then_ef_responses)
                         0x3F 0x00 False))"
  let ?cb = "snd (snd (starcos_select_fid plain_framework ?ca 0x12 0x34 False))"
  have a: "starcos_select_fid plain_framework (fresh_card dir_then_ef_responses) 0x3F 0x00 False
             = (Inr 0, None, ?ca)"
    by (simp add: run_select dir_then_ef_responses_def)
  have b: "starcos_select_fid plain_framework ?ca 0x12 0x34 False = (Inr 0, None, ?cb)"
    by (simp add: run_select dir_then_ef_responses_def)
  have c: "card_responses ?cb
             = Inr (0x6F # 0x07 # [0x80, 0x02, 0x00, 0x64, 0x82, 0x01, 0x01], 0x90, 0x00)
               # Inr ([0x00], 0x90, 0x00) # []"
    by (simp add: run_select dir_then_ef_responses_def)
  have "\<exists>f crd'.
     starcos_select_file plain_framework (fresh_card dir_then_ef_responses)
       full_path_1234_5678 True = (SC_SUCCESS, Some f, crd')
   \<and> file_type f = SC_FILE_TYPE_WORKING_EF
   \<and> file_ef_structure f = SC_FILE_EF_TRANSPARENT
   \<and> file_size f = 100
   \<and> fid_select_commands (card_sent crd')
       = fid_select_commands (card_sent (fresh_card dir_then_ef_responses))
         @ [[0x3F, 0x00], [0x12, 0x34], [0x56, 0x78]]"
    by (rule select_file_full_path_invalid_cache [OF _ _ _ _ a b c, where fd = blank_file])
       (simp_all add: fresh_card_def full_path_1234_5678_def plain_framework_def
          SC_MAX_APDU_BUFFER_SIZE_def)
  then show ?thesis
    by (simp add: fresh_card_def fid_select_commands_def)
qed

text \<open>
  Against C4 as stated: on that card the selection succeeds with the transparent EF of
  size 100, and three SELECT commands by file identifier have been sent, the first of
  them for \<^verbatim>\<open>3F00\<close>, not the two for \<^verbatim>\<open>1234\<close> and \<^verbatim>\<open>5678\<close> alone.
\<close>

theorem select_file_two_selects_counterexample:
  "(case starcos_select_file plain_framework (fresh_card dir_then_ef_responses)
           full_path_1234_5678 True of
      (r, f, crd) \<Rightarrow>
         r = SC_SUCCESS
       \<and> map_option file_ef_structure f = Some SC_FILE_EF_TRANSPARENT
       \<and> map_option file_size f = Some 100
       \<and> fid_select_commands (card_sent crd) = [[0x3F, 0x00], [0x12, 0x34], [0x56, 0x78]]
       \<and> fid_select_commands (card_sent crd) \<noteq> [[0x12, 0x34], [0x56, 0x78]])"
proof -
  have "starcos_select_file plain_framework (fresh_card dir_then_ef_responses)
          full_path_1234_5678 True =
     (case starcos_select_fid plain_framework (fresh_card dir_then_ef_responses) 0x3F 0x00 False of
        (r, f, ca) \<Rightarrow>
          (case r of
             Inl e \<Rightarrow> (Inl e, None, ca)
           | Inr _ \<Rightarrow>
              (case starcos_select_fid plain_framework ca 0x12 0x34 False of
                 (r, f, cb) \<Rightarrow>
                   (case r of
                      Inl e \<Rightarrow> (Inl e, None, cb)
                    | Inr _ \<Rightarrow> starcos_select_fid plain_framework cb 0x56 0x78 True))))"
    by (rule select_file_invalid_cache_full_path)
       (simp_all add: fresh_card_def full_path_1234_5678_def)
  then show ?thesis
    by (simp add: dir_then_ef_responses_def run_select fid_select_commands_def)
qed

subsection \<open>Answers from the cache\<close>

lemma select_file_file_id:
  assumes "path_type p = SC_PATH_TYPE_FILE_ID" and "path_len p = 2"
  shows "starcos_select_file fw crd p w =
     (if cache_is_path_ending_in crd (path_value p ! 0) (path_value p ! 1)
      then (SC_SUCCESS, None, crd)
      else starcos_select_fid fw crd (path_value p ! 0) (path_value p ! 1) w)"
  using assms
  by (subst starcos_select_file.simps) (simp add: Let_def cache_is_path_ending_in_def)

lemma select_file_df_name:
  assumes "path_type p = SC_PATH_TYPE_DF_NAME" and "path_len p \<le> length (path_value p)"
  shows "starcos_select_file fw crd p w =
     (if cache_is_aid crd (take (path_len p) (path_value p))
      then (SC_SUCCESS, None, crd)
      else starcos_select_aid fw crd (take (path_len p) (path_value p)) (path_len p) w)"
  using assms
  by (subst starcos_select_file.simps) (auto simp: Let_def cache_is_aid_def)

lemma starcos_select_fid_issues:
  assumes "starcos_select_fid fw crd hi lo w = (r, f, crd')"
  shows "\<exists>first more. card_sent crd' = card_sent crd @ first # more
            \<and> apdu_ins first = 0xA4 \<and> apdu_p1 first = 0x00 \<and> apdu_p2 first = 0x00
            \<and> apdu_data first = [hi, lo]
            \<and> length more \<le> 1
            \<and> (\<forall>b \<in> set more. apdu_ins b = 0xB0
                   \<or> (apdu_ins b = 0xA4 \<and> apdu_p1 b = 0x00 \<and> apdu_p2 b = 0x0C
                      \<and> apdu_data b = [hi, lo]))"
proof -
  let ?apdu = "(sc_format_apdu crd SC_APDU_CASE_4_SHORT 0xA4 0x00 0x00)
          \<lparr>apdu_resplen := SC_MAX_APDU_BUFFER_SIZE, apdu_le := 256, apdu_lc := 2,
           apdu_data := [hi, lo], apdu_datalen := 2\<rparr>"
  obtain ra aa ca where t: "sc_transmit_apdu crd ?apdu = (ra, aa, ca)"
    by (metis prod_cases3)
  from t have s: "card_sent ca = card_sent crd @ [?apdu]"
    by (simp add: sc_transmit_apdu_sent)
  from t have k: "apdu_ins aa = 0xA4 \<and> apdu_p1 aa = 0 \<and> apdu_p2 aa = 0 \<and> apdu_data aa = [hi, lo]"
    by (auto dest!: sc_transmit_apdu_command simp: sc_format_apdu_def)
  have "card_sent crd' = card_sent ca
      \<or> (\<exists>b. card_sent crd' = card_sent ca @ [b]
             \<and> (apdu_ins b = 0xB0
                   \<or> (apdu_ins b = 0xA4 \<and> apdu_p1 b = 0x00 \<and> apdu_p2 b = 0x0C
                      \<and> apdu_data b = [hi, lo])))"
    using assms t k
    by (auto simp: starcos_select_fid_def Let_def sc_format_apdu_def
             split: if_splits prod.splits sum.splits
             dest!: starcos_select_fid_result_frame sc_transmit_apdu_sent)
  then show ?thesis
  proof
    assume "card_sent crd' = card_sent ca"
    with s show ?thesis
      by (intro exI [of _ ?apdu] exI [of _ "[]"]) (simp add: sc_format_apdu_def)
  next
    assume "\<exists>b. card_sent crd' = card_sent ca @ [b]
             \<and> (apdu_ins b = 0xB0
                   \<or> (apdu_ins b = 0xA4 \<and> apdu_p1 b = 0x00 \<and> apdu_p2 b = 0x0C
                      \<and> apdu_data b = [hi, lo]))"
    then obtain b where b: "card_sent crd' = card_sent ca @ [b]"
       "apdu_ins b = 0xB0
                   \<or> (apdu_ins b = 0xA4 \<and> apdu_p1 b = 0x00 \<and> apdu_p2 b = 0x0C
                      \<and> apdu_data b = [hi, lo])"
      by blast
    with s show ?thesis
      by (intro exI [of _ ?apdu] exI [of _ "[b]"]) (simp add: sc_format_apdu_def)
  qed
qed

lemma starcos_select_aid_issues:
  assumes "starcos_select_aid fw crd aid len w = (r, f, crd')"
  shows "\<exists>a. card_sent crd' = card_sent crd @ [a]
          \<and> apdu_ins a = 0xA4 \<and> apdu_p1 a = 0x04 \<and> apdu_p2 a = 0x0C
          \<and> apdu_data a = take len aid \<and> apdu_lc a = len"
  using assms
  by (auto simp: starcos_select_aid_def Let_def sc_format_apdu_def
           split: if_splits prod.splits sum.splits option.splits
           dest!: sc_transmit_apdu_sent)

text \<open>
  C7. A request by file identifier (two bytes) is answered with success and without any
  command sent exactly when the cache is valid and holds a path whose last two bytes are
  the identifier. Otherwise it is one call of \<^verbatim>\<open>starcos_select_fid\<close>, which issues a
  single SELECT by file identifier (\<^verbatim>\<open>A4 00 00\<close>) carrying the two bytes, followed by
  at most one more command: the confirming SELECT (\<^verbatim>\<open>A4 00 0C\<close>) for the same
  identifier or the READ BINARY probe (\<^verbatim>\<open>B0\<close>). A request by application identifier
  is answered with success and without any command sent exactly when the cache is valid
  and holds the same identifier, byte for byte. Otherwise it is one call of
  \<^verbatim>\<open>starcos_select_aid\<close>, which issues exactly one command, the SELECT by name
  (\<^verbatim>\<open>A4 04 0C\<close>) carrying the identifier.
\<close>

theorem select_file_cache_hit:
  "(path_type p = SC_PATH_TYPE_FILE_ID \<and> path_len p = 2 \<longrightarrow>
      (cache_is_path_ending_in crd (path_value p ! 0) (path_value p ! 1) \<longrightarrow>
         starcos_select_file fw crd p w = (SC_SUCCESS, None, crd))
    \<and> (\<not> cache_is_path_ending_in crd (path_value p ! 0) (path_value p ! 1) \<longrightarrow>
         starcos_select_file fw crd p w
           = starcos_select_fid fw crd (path_value p ! 0) (path_value p ! 1) w
       \<and> fid_select_commands (card_sent (snd (snd (starcos_select_file fw crd p w))))
           = fid_select_commands (card_sent crd) @ [[path_value p ! 0, path_value p ! 1]]
       \<and> (\<exists>first more.
             card_sent (snd (snd (starcos_select_file fw crd p w)))
               = card_sent crd @ first # more
           \<and> apdu_ins first = 0xA4 \<and> apdu_p1 first = 0x00 \<and> apdu_p2 first = 0x00
           \<and> apdu_data first = [path_value p ! 0, path_value p ! 1]
           \<and> length more \<le> 1
           \<and> (\<forall>b \<in> set more. apdu_ins b = 0xB0
                  \<or> (apdu_ins b = 0xA4 \<and> apdu_p1 b = 0x00 \<and> apdu_p2 b = 0x0C
                     \<and> apdu_data b = [path_value p ! 0, path_value p ! 1]))))
    \<and> (fst (starcos_select_file fw crd p w) = SC_SUCCESS
         \<and> card_sent (snd (snd (starcos_select_file fw crd p w))) = card_sent crd
        \<longleftrightarrow> cache_is_path_ending_in crd (path_value p ! 0) (path_value p ! 1)))
   \<and> (path_type p = SC_PATH_TYPE_DF_NAME \<and> path_len p \<le> length (path_value p) \<longrightarrow>
      (cache_is_aid crd (take (path_len p) (path_value p)) \<longrightarrow>
         starcos_select_file fw crd p w = (SC_SUCCESS, None, crd))
    \<and> (\<not> cache_is_aid crd (take (path_len p) (path_value p)) \<longrightarrow>
         starcos_select_file fw crd p w
           = starcos_select_aid fw crd (take (path_len p) (path_value p)) (path_len p) w
       \<and> (\<exists>a. card_sent (snd (snd (starcos_select_file fw crd p w))) = card_sent crd @ [a]
             \<and> apdu_ins a = 0xA4 \<and> apdu_p1 a = 0x04 \<and> apdu_p2 a = 0x0C
             \<and> apdu_data a = take (path_len p) (path_value p)
             \<and> apdu_lc a = path_len p))
    \<and> (fst (starcos_select_file fw crd p w) = SC_SUCCESS
         \<and> card_sent (snd (snd (starcos_select_file fw crd p w))) = card_sent crd
        \<longleftrightarrow> cache_is_aid crd (take (path_len p) (path_value p))))"
proof (intro conjI impI)
  assume h: "path_type p = SC_PATH_TYPE_FILE_ID \<and> path_len p = 2"
  then have eq: "starcos_select_file fw crd p w =
     (if cache_is_path_ending_in crd (path_value p ! 0) (path_value p ! 1)
      then (SC_SUCCESS, None, crd)
      else starcos_select_fid fw crd (path_value p ! 0) (path_value p ! 1) w)"
    by (simp add: select_file_file_id)
  obtain r f c where s: "starcos_select_fid fw crd (path_value p ! 0) (path_value p ! 1) w
                           = (r, f, c)"
    by (metis prod_cases3)
  { assume "cache_is_path_ending_in crd (path_value p ! 0) (path_value p ! 1)"
    with eq show "starcos_select_file fw crd p w = (SC_SUCCESS, None, crd)" by simp }
  { assume m: "\<not> cache_is_path_ending_in crd (path_value p ! 0) (path_value p ! 1)"
    with eq show "starcos_select_file fw crd p w
           = starcos_select_fid fw crd (path_value p ! 0) (path_value p ! 1) w" by simp
    from m eq s have c: "snd (snd (starcos_select_file fw crd p w)) = c" by simp
    from starcos_select_fid_commands [OF s] c
    show "fid_select_commands (card_sent (snd (snd (starcos_select_file fw crd p w))))
           = fid_select_commands (card_sent crd) @ [[path_value p ! 0, path_value p ! 1]]"
      by simp
    from starcos_select_fid_issues [OF s] c
    show "\<exists>first more.
             card_sent (snd (snd (starcos_select_file fw crd p w)))
               = card_sent crd @ first # more
           \<and> apdu_ins first = 0xA4 \<and> apdu_p1 first = 0x00 \<and> apdu_p2 first = 0x00
           \<and> apdu_data first = [path_value p ! 0, path_value p ! 1]
           \<and> length more \<le> 1
           \<and> (\<forall>b \<in> set more. apdu_ins b = 0xB0
                  \<or> (apdu_ins b = 0xA4 \<and> apdu_p1 b = 0x00 \<and> apdu_p2 b = 0x0C
                     \<and> apdu_data b = [path_value p ! 0, path_value p ! 1]))"
      by simp }
  show "fst (starcos_select_file fw crd p w) = SC_SUCCESS
         \<and> card_sent (snd (snd (starcos_select_file fw crd p w))) = card_sent crd
        \<longleftrightarrow> cache_is_path_ending_in crd (path_value p ! 0) (path_value p ! 1)"
  proof (cases "cache_is_path_ending_in crd (path_value p ! 0) (path_value p ! 1)")
    case True
    with eq show ?thesis by simp
  next
    case False
    from s have "length (card_sent crd) < length (card_sent c)"
      by (rule starcos_select_fid_sends)
    with eq False s show ?thesis by auto
  qed
next
  assume h: "path_type p = SC_PATH_TYPE_DF_NAME \<and> path_len p \<le> length (path_value p)"
  then have eq: "starcos_select_file fw crd p w =
     (if cache_is_aid crd (take (path_len p) (path_value p))
      then (SC_SUCCESS, None, crd)
      else starcos_select_aid fw crd (take (path_len p) (path_value p)) (path_len p) w)"
    by (simp add: select_file_df_name)
  obtain r f c where s: "starcos_select_aid fw crd (take (path_len p) (path_value p))
                           (path_len p) w = (r, f, c)"
    by (metis prod_cases3)
  { assume "cache_is_aid crd (take (path_len p) (path_value p))"
    with eq show "starcos_select_file fw crd p w = (SC_SUCCESS, None, crd)" by simp }
  { assume m: "\<not> cache_is_aid crd (take (path_len p) (path_value p))"
    with eq show "starcos_select_file fw crd p w
           = starcos_select_aid fw crd (take (path_len p) (path_value p)) (path_len p) w"
      by simp
    from m eq s have c: "snd (snd (starcos_select_file fw crd p w)) = c" by simp
    from starcos_select_aid_issues [OF s] c
    show "\<exists>a. card_sent (snd (snd (starcos_select_file fw crd p w))) = card_sent crd @ [a]
             \<and> apdu_ins a = 0xA4 \<and> apdu_p1 a = 0x04 \<and> apdu_p2 a = 0x0C
             \<and> apdu_data a = take (path_len p) (path_value p)
             \<and> apdu_lc a = path_len p"
      by simp }
  show "fst (starcos_select_file fw crd p w) = SC_SUCCESS
         \<and> card_sent (snd (snd (starcos_select_file fw crd p w))) = card_sent crd
        \<longleftrightarrow> cache_is_aid crd (take (path_len p) (path_value p))"
  proof (cases "cache_is_aid crd (take (path_len p) (path_value p))")
    case True
    with eq show ?thesis by simp
  next
    case False
    from s have "length (card_sent crd) < length (card_sent c)"
      by (rule starcos_select_aid_sends)
    with eq False s show ?thesis by auto
  qed
qed

text \<open>
  In the directory \<^verbatim>\<open>3F00/1234\<close> the request for \<^verbatim>\<open>1234\<close> is answered from the cache,
  and so is the request for the application the cache names; the request for \<^verbatim>\<open>5678\<close>
  goes to the card as one SELECT for \<^verbatim>\<open>5678\<close>.
\<close>

theorem select_file_cache_hit_witness:
  "starcos_select_file plain_framework
     (card_in (path_of SC_PATH_TYPE_PATH [0x3F, 0x00, 0x12, 0x34]) [])
     (path_of SC_PATH_TYPE_FILE_ID [0x12, 0x34]) True
     = (SC_SUCCESS, None, card_in (path_of SC_PATH_TYPE_PATH [0x3F, 0x00, 0x12, 0x34]) [])
   \<and> starcos_select_file plain_framework
     (card_in (path_of SC_PATH_TYPE_DF_NAME [0xA0, 0x00, 0x00, 0x01]) [])
     (path_of SC_PATH_TYPE_DF_NAME [0xA0, 0x00, 0x00, 0x01]) True
     = (SC_SUCCESS, None, card_in (path_of SC_PATH_TYPE_DF_NAME [0xA0, 0x00, 0x00, 0x01]) [])
   \<and> starcos_select_file plain_framework
     (card_in (path_of SC_PATH_TYPE_PATH [0x3F, 0x00, 0x12, 0x34]) [Inr ([], 0x6A, 0x82)])
     (path_of SC_PATH_TYPE_FILE_ID [0x56, 0x78]) True
     = starcos_select_fid plain_framework
         (card_in (path_of SC_PATH_TYPE_PATH [0x3F, 0x00, 0x12, 0x34]) [Inr ([], 0x6A, 0x82)])
         0x56 0x78 True
   \<and> fid_select_commands (card_sent (snd (snd (starcos_select_file plain_framework
     (card_in (path_of SC_PATH_TYPE_PATH [0x3F, 0x00, 0x12, 0x34]) [Inr ([], 0x6A, 0x82)])
     (path_of SC_PATH_TYPE_FILE_ID [0x56, 0x78]) True))))
     = [[0x56, 0x78]]"
proof -
  have e: "fid_select_commands [] = []"
    by (simp add: fid_select_commands_def)
  have a: "starcos_select_file plain_framework
     (card_in (path_of SC_PATH_TYPE_PATH [0x3F, 0x00, 0x12, 0x34]) [])
     (path_of SC_PATH_TYPE_FILE_ID [0x12, 0x34]) True
     = (SC_SUCCESS, None, card_in (path_of SC_PATH_TYPE_PATH [0x3F, 0x00, 0x12, 0x34]) [])"
    using select_file_cache_hit
      [where p = "path_of SC_PATH_TYPE_FILE_ID [0x12, 0x34]" and fw = plain_framework
         and w = True
         and crd = "card_in (path_of SC_PATH_TYPE_PATH [0x3F, 0x00, 0x12, 0x34]) []"]
    by (simp add: path_of_def card_in_def fresh_card_def cache_is_path_ending_in_def)
  have b: "starcos_select_file plain_framework
     (card_in (path_of SC_PATH_TYPE_DF_NAME [0xA0, 0x00, 0x00, 0x01]) [])
     (path_of SC_PATH_TYPE_DF_NAME [0xA0, 0x00, 0x00, 0x01]) True
     = (SC_SUCCESS, None, card_in (path_of SC_PATH_TYPE_DF_NAME [0xA0, 0x00, 0x00, 0x01]) [])"
    using select_file_cache_hit
      [where p = "path_of SC_PATH_TYPE_DF_NAME [0xA0, 0x00, 0x00, 0x01]"
         and fw = plain_framework and w = True
         and crd = "card_in (path_of SC_PATH_TYPE_DF_NAME [0xA0, 0x00, 0x00, 0x01]) []"]
    by (simp add: path_of_def card_in_def fresh_card_def cache_is_aid_def)
  let ?c = "card_in (path_of SC_PATH_TYPE_PATH [0x3F, 0x00, 0x12, 0x34]) [Inr ([], 0x6A, 0x82)]"
  let ?p = "path_of SC_PATH_TYPE_FILE_ID [0x56, 0x78]"
  have v: "path_type ?p = SC_PATH_TYPE_FILE_ID" "path_len ?p = 2"
      "path_value ?p ! 0 = 0x56" "path_value ?p ! Suc 0 = 0x78" "card_sent ?c = []"
    by (simp_all add: path_of_def card_in_def fresh_card_def)
  have m: "\<not> cache_is_path_ending_in ?c 0x56 0x78"
    by (simp add: path_of_def card_in_def fresh_card_def cache_is_path_ending_in_def)
  note t = select_file_cache_hit
    [where p = ?p and fw = plain_framework and w = True and crd = ?c]
  from t have c: "starcos_select_file plain_framework ?c ?p True
             = starcos_select_fid plain_framework ?c 0x56 0x78 True"
    by (simp add: v m)
  from t have d: "fid_select_commands
             (card_sent (snd (snd (starcos_select_file plain_framework ?c ?p True))))
             = [[0x56, 0x78]]"
    by (clarsimp simp: e v m)
  from a b c d show ?thesis by simp
qed

subsection \<open>What the cache holds\<close>





















end
